theory Spec2Isabelle
  imports Main "HOL-Library.AList"
begin

section \<open>JavaScript values of the storage layer\<close>

text \<open>
  The storage layer of kharidify (\<^verbatim>\<open>server/storage.ts\<close>, \<^verbatim>\<open>server/DatabaseStorage.ts\<close>)
  stores nine kinds of entities.  Ids, counters, \<^verbatim>\<open>limit\<close> and \<^verbatim>\<open>offset\<close> are JavaScript
  numbers that only ever hold integers (counters start at 1 and are incremented, the
  routes produce ids and paging values with \<^verbatim>\<open>parseInt\<close>); they are integers here.
  \<^verbatim>\<open>NaN\<close>, which \<^verbatim>\<open>parseInt\<close> may return and which is falsy like an absent option, is
  represented by the absent option.  A \<^verbatim>\<open>Date\<close> is its number of milliseconds; every
  \<^verbatim>\<open>new Date()\<close> of the source is a timestamp argument of the operation that reads the
  clock.  Prices (\<^verbatim>\<open>numeric\<close> columns) and JSON addresses are opaque to the storage
  layer.
\<close>

type_synonym Date = int
type_synonym numeric = int
type_synonym json = string

text \<open>
  \<^verbatim>\<open>this.productId++\<close> on a counter: a JavaScript number is a double, which holds every
  integer up to \<^verbatim>\<open>2^53\<close> and rounds \<^verbatim>\<open>2^53 + 1\<close> back to \<^verbatim>\<open>2^53\<close>.  A counter starts
  at 1, counts up to \<^verbatim>\<open>2^53\<close> and stays there.
\<close>

definition counter_limit :: int where
  "counter_limit = 9007199254740992"

definition js_increment :: "int \<Rightarrow> int" where
  "js_increment n = (if n < counter_limit then n + 1 else n)"

text \<open>
  A JavaScript \<^verbatim>\<open>Map<number, T>\<close> keeps its entries in insertion order:
  \<^verbatim>\<open>set\<close> on a key that is present replaces the value in place, on a new key it appends;
  \<^verbatim>\<open>values()\<close> iterates in that order.  It is an association list.
\<close>

type_synonym 'a js_map = "(int \<times> 'a) list"

definition map_get :: "'a js_map \<Rightarrow> int \<Rightarrow> 'a option" where
  "map_get m k = map_of m k"

definition map_has :: "'a js_map \<Rightarrow> int \<Rightarrow> bool" where
  "map_has m k = (k \<in> set (map fst m))"

definition map_set :: "'a js_map \<Rightarrow> int \<Rightarrow> 'a \<Rightarrow> 'a js_map" where
  "map_set m k v = AList.update k v m"

definition map_delete :: "'a js_map \<Rightarrow> int \<Rightarrow> 'a js_map" where
  "map_delete m k = AList.delete k m"

definition map_values :: "'a js_map \<Rightarrow> 'a list" where
  "map_values m = map snd m"

definition map_keys :: "'a js_map \<Rightarrow> int list" where
  "map_keys m = map fst m"

text \<open>
  Truthiness of an optional string and of an optional number (\<^verbatim>\<open>if (options?.category)\<close>,
  \<^verbatim>\<open>if (options?.limit)\<close>): \<^verbatim>\<open>undefined\<close>, the empty string and 0 are falsy.
\<close>

fun truthy_string :: "string option \<Rightarrow> bool" where
  "truthy_string None = False"
| "truthy_string (Some s) = (s \<noteq> [])"

fun truthy_number :: "int option \<Rightarrow> bool" where
  "truthy_number None = False"
| "truthy_number (Some n) = (n \<noteq> 0)"

text \<open>\<^verbatim>\<open>x || d\<close> on an optional number: the default replaces every falsy value.\<close>

definition or_number :: "int option \<Rightarrow> int \<Rightarrow> int" where
  "or_number x d = (if truthy_number x then the x else d)"

text \<open>\<^verbatim>\<open>x ?? d\<close>: the default replaces \<^verbatim>\<open>null\<close> and \<^verbatim>\<open>undefined\<close> only.\<close>

fun nullish :: "'a option \<Rightarrow> 'a \<Rightarrow> 'a" where
  "nullish None d = d"
| "nullish (Some v) d = v"

text \<open>
  \<^verbatim>\<open>Array.prototype.slice(start, end)\<close> on integer arguments: a negative index counts
  from the end, both indices are clamped to the array, and an empty range gives the
  empty array.
\<close>

definition clamp_index :: "int \<Rightarrow> int \<Rightarrow> int" where
  "clamp_index len k = (if k < 0 then max (len + k) 0 else min k len)"

definition js_slice :: "'a list \<Rightarrow> int \<Rightarrow> int \<Rightarrow> 'a list" where
  "js_slice xs start end' =
     (let len = int (length xs);
          k = clamp_index len start;
          final = clamp_index len end'
      in take (nat (final - k)) (drop (nat k) xs))"

text \<open>
  \<^verbatim>\<open>Array.prototype.sort(cmp)\<close> is stable: an insertion sort that keeps the order of
  elements the comparison function calls equal.  \<^verbatim>\<open>localeCompare\<close> and the
  database's collation are parameters of the functions that sort.
\<close>

fun insert_sorted :: "('a \<Rightarrow> 'a \<Rightarrow> int) \<Rightarrow> 'a \<Rightarrow> 'a list \<Rightarrow> 'a list" where
  "insert_sorted cmp x [] = [x]"
| "insert_sorted cmp x (y # ys) =
     (if cmp x y \<le> 0 then x # y # ys else y # insert_sorted cmp x ys)"

definition stable_sort :: "('a \<Rightarrow> 'a \<Rightarrow> int) \<Rightarrow> 'a list \<Rightarrow> 'a list" where
  "stable_sort cmp xs = foldr (insert_sorted cmp) xs []"

text \<open>The merge of an update: a field the payload does not carry keeps its value.\<close>

fun spread :: "'a \<Rightarrow> 'a option \<Rightarrow> 'a" where
  "spread old None = old"
| "spread old (Some v) = v"

section \<open>The entities\<close>

text \<open>
  Modelled from the spec: \<^verbatim>\<open>shared/schema.ts\<close>, which declares the entity types
  (\<^verbatim>\<open>User\<close>, \<^verbatim>\<open>InsertUser\<close>, ...), is not among the sources.  The records follow the
  spec's data model, the table definitions of the schema reference document and the
  fields the storage classes read and write.  A nullable column is an option
  (\<open>None\<close> is \<^verbatim>\<open>null\<close>); an insert type omits the id and the timestamps, which the
  backend assigns; in an insert payload an optional field is an option (\<open>None\<close> is an
  absent or \<^verbatim>\<open>null\<close> field, which \<^verbatim>\<open>??\<close> treats alike); in a \<^verbatim>\<open>Partial<Insert...>\<close>
  payload every field is an option (\<open>None\<close> is an absent field), so a nullable column
  has an option of an option there.

  The payload of an update is spread over the stored entity, key by key, whatever its
  keys are, and the route that updates a product hands the request body over as it
  is.  So the records of the update payloads have, besides the fields of the declared
  type \<^verbatim>\<open>Partial<Insert...>\<close>, the keys of the entity that the declared type leaves out
  (\<^verbatim>\<open>id\<close>, \<^verbatim>\<open>createdAt\<close>, \<^verbatim>\<open>updatedAt\<close>); a payload of the declared type has \<open>None\<close>
  there.  Keys that are no field of the entity are carried along by the spread and read
  by no operation; they are left out.
\<close>

record User =
  user_id :: int
  user_username :: string
  user_email :: string
  user_password :: string
  user_firstName :: "string option"
  user_lastName :: "string option"
  user_phone :: "string option"
  user_createdAt :: "Date option"

record InsertUser =
  insertUser_username :: string
  insertUser_email :: string
  insertUser_password :: string
  insertUser_firstName :: "string option"
  insertUser_lastName :: "string option"
  insertUser_phone :: "string option"

record Product =
  product_id :: int
  product_name :: string
  product_description :: string
  product_price :: numeric
  product_discountPrice :: "numeric option"
  product_images :: "string list option"
  product_category :: string
  product_inStock :: "bool option"
  product_isFeatured :: "bool option"
  product_isLimited :: "bool option"
  product_limitedCount :: "int option"
  product_sustainableMaterials :: "string list option"
  product_madeIn :: "string option"
  product_createdAt :: "Date option"

record InsertProduct =
  insertProduct_name :: string
  insertProduct_description :: string
  insertProduct_price :: numeric
  insertProduct_discountPrice :: "numeric option"
  insertProduct_images :: "string list option"
  insertProduct_category :: string
  insertProduct_inStock :: "bool option"
  insertProduct_isFeatured :: "bool option"
  insertProduct_isLimited :: "bool option"
  insertProduct_limitedCount :: "int option"
  insertProduct_sustainableMaterials :: "string list option"
  insertProduct_madeIn :: "string option"

record PartialProduct =
  partialProduct_name :: "string option"
  partialProduct_description :: "string option"
  partialProduct_price :: "numeric option"
  partialProduct_discountPrice :: "numeric option option"
  partialProduct_images :: "string list option option"
  partialProduct_category :: "string option"
  partialProduct_inStock :: "bool option option"
  partialProduct_isFeatured :: "bool option option"
  partialProduct_isLimited :: "bool option option"
  partialProduct_limitedCount :: "int option option"
  partialProduct_sustainableMaterials :: "string list option option"
  partialProduct_madeIn :: "string option option"
  partialProduct_id :: "int option"
  partialProduct_createdAt :: "Date option option"

record Category =
  category_id :: int
  category_name :: string
  category_slug :: string

record InsertCategory =
  insertCategory_name :: string
  insertCategory_slug :: string

record Article =
  article_id :: int
  article_title :: string
  article_slug :: string
  article_content :: string
  article_excerpt :: "string option"
  article_coverImage :: "string option"
  article_category :: "string option"
  article_createdAt :: "Date option"

record InsertArticle =
  insertArticle_title :: string
  insertArticle_slug :: string
  insertArticle_content :: string
  insertArticle_excerpt :: "string option"
  insertArticle_coverImage :: "string option"
  insertArticle_category :: "string option"

record Order =
  order_id :: int
  order_userId :: "int option"
  order_status :: string
  order_total :: numeric
  order_shippingAddress :: "json option"
  order_billingAddress :: "json option"
  order_paymentMethod :: "string option"
  order_paymentStatus :: "string option"
  order_createdAt :: "Date option"

record InsertOrder =
  insertOrder_userId :: "int option"
  insertOrder_status :: string
  insertOrder_total :: numeric
  insertOrder_shippingAddress :: "json option"
  insertOrder_billingAddress :: "json option"
  insertOrder_paymentMethod :: "string option"
  insertOrder_paymentStatus :: "string option"

record OrderItem =
  orderItem_id :: int
  orderItem_orderId :: int
  orderItem_productId :: int
  orderItem_quantity :: int
  orderItem_price :: numeric

record InsertOrderItem =
  insertOrderItem_orderId :: int
  insertOrderItem_productId :: int
  insertOrderItem_quantity :: int
  insertOrderItem_price :: numeric

record Subscriber =
  subscriber_id :: int
  subscriber_email :: string
  subscriber_createdAt :: "Date option"

record InsertSubscriber =
  insertSubscriber_email :: string

record Contact =
  contact_id :: int
  contact_name :: string
  contact_email :: string
  contact_subject :: "string option"
  contact_message :: string
  contact_createdAt :: "Date option"

record InsertContact =
  insertContact_name :: string
  insertContact_email :: string
  insertContact_subject :: "string option"
  insertContact_message :: string

record Settings =
  settings_id :: int
  settings_key :: string
  settings_value :: "string option"
  settings_category :: string
  settings_description :: "string option"
  settings_createdAt :: "Date option"
  settings_updatedAt :: "Date option"

record InsertSettings =
  insertSettings_key :: string
  insertSettings_value :: "string option"
  insertSettings_category :: "string option"
  insertSettings_description :: "string option"

record PartialSettings =
  partialSettings_key :: "string option"
  partialSettings_value :: "string option option"
  partialSettings_category :: "string option"
  partialSettings_description :: "string option option"
  partialSettings_id :: "int option"
  partialSettings_createdAt :: "Date option option"
  partialSettings_updatedAt :: "Date option option"

text \<open>The options of the listing operations (\<^verbatim>\<open>getArticles\<close>, \<^verbatim>\<open>getProducts\<close>).\<close>

record ListOptions =
  limit :: "int option"
  offset :: "int option"
  category :: "string option"

record ProductOptions = ListOptions +
  featured :: "bool option"

section \<open>The in-memory backend\<close>

text \<open>
  \<^verbatim>\<open>class MemStorage\<close>: one insertion-ordered mapping per entity kind and one counter
  per kind.  An operation takes the state and returns its result with the state after
  it; an operation that only reads returns its result.
\<close>

record MemStorage =
  users :: "User js_map"
  products :: "Product js_map"
  categories :: "Category js_map"
  articles :: "Article js_map"
  orders :: "Order js_map"
  orderItems :: "OrderItem js_map"
  subscribers :: "Subscriber js_map"
  contacts :: "Contact js_map"
  settings :: "Settings js_map"
  userId :: int
  productId :: int
  categoryId :: int
  articleId :: int
  orderId :: int
  orderItemId :: int
  subscriberId :: int
  contactId :: int
  settingId :: int

subsection \<open>Users\<close>




definition mem_createUser :: "Date \<Rightarrow> InsertUser \<Rightarrow> MemStorage \<Rightarrow> User \<times> MemStorage" where
  "mem_createUser createdAt insertUser s =
     (let i = userId s;
          user = \<lparr> user_id = i,
                   user_username = insertUser_username insertUser,
                   user_email = insertUser_email insertUser,
                   user_password = insertUser_password insertUser,
                   user_firstName = insertUser_firstName insertUser,
                   user_lastName = insertUser_lastName insertUser,
                   user_phone = insertUser_phone insertUser,
                   user_createdAt = Some createdAt \<rparr>
      in (user, s\<lparr> users := map_set (users s) i user, userId := js_increment i \<rparr>))"

subsection \<open>Products\<close>

definition mem_getProduct :: "int \<Rightarrow> MemStorage \<Rightarrow> Product option" where
  "mem_getProduct i s = map_get (products s) i"

definition mem_getProducts :: "ProductOptions option \<Rightarrow> MemStorage \<Rightarrow> Product list" where
  "mem_getProducts options s =
     (let products0 = map_values (products s);
          products1 =
            (if truthy_string (Option.bind options category)
             then filter (\<lambda>product. Some (product_category product) = Option.bind options category)
                    products0
             else products0);
          products2 =
            (if Option.bind options featured \<noteq> None
             then filter (\<lambda>product. product_isFeatured product = Option.bind options featured)
                    products1
             else products1);
          offset' = or_number (Option.bind options offset) 0;
          limit' = or_number (Option.bind options limit) (int (length products2))
      in js_slice products2 offset' (offset' + limit'))"

definition mem_createProduct ::
    "Date \<Rightarrow> InsertProduct \<Rightarrow> MemStorage \<Rightarrow> Product \<times> MemStorage" where
  "mem_createProduct createdAt insertProduct s =
     (let i = productId s;
          product = \<lparr> product_id = i,
                      product_name = insertProduct_name insertProduct,
                      product_description = insertProduct_description insertProduct,
                      product_price = insertProduct_price insertProduct,
                      product_discountPrice = insertProduct_discountPrice insertProduct,
                      product_images = insertProduct_images insertProduct,
                      product_category = insertProduct_category insertProduct,
                      product_inStock = Some (nullish (insertProduct_inStock insertProduct) True),
                      product_isFeatured =
                        Some (nullish (insertProduct_isFeatured insertProduct) False),
                      product_isLimited =
                        Some (nullish (insertProduct_isLimited insertProduct) False),
                      product_limitedCount = insertProduct_limitedCount insertProduct,
                      product_sustainableMaterials =
                        insertProduct_sustainableMaterials insertProduct,
                      product_madeIn = insertProduct_madeIn insertProduct,
                      product_createdAt = Some createdAt \<rparr>
      in (product, s\<lparr> products := map_set (products s) i product, productId := js_increment i \<rparr>))"

text \<open>
  \<^verbatim>\<open>{ ...existingProduct, ...product }\<close>: every key of the payload replaces the field of
  the stored product, \<^verbatim>\<open>id\<close> and \<^verbatim>\<open>createdAt\<close> included.
\<close>

definition spread_product :: "Product \<Rightarrow> PartialProduct \<Rightarrow> Product" where
  "spread_product existingProduct product =
     existingProduct
       \<lparr> product_name := spread (product_name existingProduct) (partialProduct_name product),
         product_description :=
           spread (product_description existingProduct) (partialProduct_description product),
         product_price := spread (product_price existingProduct) (partialProduct_price product),
         product_discountPrice :=
           spread (product_discountPrice existingProduct) (partialProduct_discountPrice product),
         product_images := spread (product_images existingProduct) (partialProduct_images product),
         product_category :=
           spread (product_category existingProduct) (partialProduct_category product),
         product_inStock :=
           spread (product_inStock existingProduct) (partialProduct_inStock product),
         product_isFeatured :=
           spread (product_isFeatured existingProduct) (partialProduct_isFeatured product),
         product_isLimited :=
           spread (product_isLimited existingProduct) (partialProduct_isLimited product),
         product_limitedCount :=
           spread (product_limitedCount existingProduct) (partialProduct_limitedCount product),
         product_sustainableMaterials :=
           spread (product_sustainableMaterials existingProduct)
             (partialProduct_sustainableMaterials product),
         product_madeIn := spread (product_madeIn existingProduct) (partialProduct_madeIn product),
         product_id := spread (product_id existingProduct) (partialProduct_id product),
         product_createdAt :=
           spread (product_createdAt existingProduct) (partialProduct_createdAt product) \<rparr>"

definition mem_updateProduct ::
    "int \<Rightarrow> PartialProduct \<Rightarrow> MemStorage \<Rightarrow> Product option \<times> MemStorage" where
  "mem_updateProduct i product s =
     (case map_get (products s) i of
        None \<Rightarrow> (None, s)
      | Some existingProduct \<Rightarrow>
          (let updatedProduct = spread_product existingProduct product
           in (Some updatedProduct, s\<lparr> products := map_set (products s) i updatedProduct \<rparr>)))"

definition mem_deleteProduct :: "int \<Rightarrow> MemStorage \<Rightarrow> bool \<times> MemStorage" where
  "mem_deleteProduct i s =
     (let exists = map_has (products s) i
      in if exists then (True, s\<lparr> products := map_delete (products s) i \<rparr>)
         else (False, s))"

subsection \<open>Categories\<close>

definition mem_getCategories :: "MemStorage \<Rightarrow> Category list" where
  "mem_getCategories s = map_values (categories s)"


definition mem_createCategory :: "InsertCategory \<Rightarrow> MemStorage \<Rightarrow> Category \<times> MemStorage" where
  "mem_createCategory insertCategory s =
     (let i = categoryId s;
          category' = \<lparr> category_id = i,
                        category_name = insertCategory_name insertCategory,
                        category_slug = insertCategory_slug insertCategory \<rparr>
      in (category', s\<lparr> categories := map_set (categories s) i category', categoryId := js_increment i \<rparr>))"

subsection \<open>Articles\<close>



definition mem_getArticles :: "ListOptions option \<Rightarrow> MemStorage \<Rightarrow> Article list" where
  "mem_getArticles options s =
     (let articles0 = map_values (articles s);
          articles1 =
            (if truthy_string (Option.bind options category)
             then filter (\<lambda>article. article_category article = Option.bind options category)
                    articles0
             else articles0);
          offset' = or_number (Option.bind options offset) 0;
          limit' = or_number (Option.bind options limit) (int (length articles1))
      in js_slice articles1 offset' (offset' + limit'))"

definition mem_createArticle ::
    "Date \<Rightarrow> InsertArticle \<Rightarrow> MemStorage \<Rightarrow> Article \<times> MemStorage" where
  "mem_createArticle createdAt insertArticle s =
     (let i = articleId s;
          article = \<lparr> article_id = i,
                      article_title = insertArticle_title insertArticle,
                      article_slug = insertArticle_slug insertArticle,
                      article_content = insertArticle_content insertArticle,
                      article_excerpt = insertArticle_excerpt insertArticle,
                      article_coverImage = insertArticle_coverImage insertArticle,
                      article_category = insertArticle_category insertArticle,
                      article_createdAt = Some createdAt \<rparr>
      in (article, s\<lparr> articles := map_set (articles s) i article, articleId := js_increment i \<rparr>))"

subsection \<open>Orders and order items\<close>


definition mem_getUserOrders :: "int \<Rightarrow> MemStorage \<Rightarrow> Order list" where
  "mem_getUserOrders uid s =
     filter (\<lambda>order. order_userId order = Some uid) (map_values (orders s))"

definition mem_createOrder :: "Date \<Rightarrow> InsertOrder \<Rightarrow> MemStorage \<Rightarrow> Order \<times> MemStorage" where
  "mem_createOrder createdAt insertOrder s =
     (let i = orderId s;
          order = \<lparr> order_id = i,
                    order_userId = insertOrder_userId insertOrder,
                    order_status = insertOrder_status insertOrder,
                    order_total = insertOrder_total insertOrder,
                    order_shippingAddress = insertOrder_shippingAddress insertOrder,
                    order_billingAddress = insertOrder_billingAddress insertOrder,
                    order_paymentMethod = insertOrder_paymentMethod insertOrder,
                    order_paymentStatus = insertOrder_paymentStatus insertOrder,
                    order_createdAt = Some createdAt \<rparr>
      in (order, s\<lparr> orders := map_set (orders s) i order, orderId := js_increment i \<rparr>))"

definition mem_updateOrderStatus ::
    "int \<Rightarrow> string \<Rightarrow> MemStorage \<Rightarrow> Order option \<times> MemStorage" where
  "mem_updateOrderStatus i status s =
     (case map_get (orders s) i of
        None \<Rightarrow> (None, s)
      | Some order \<Rightarrow>
          (let updatedOrder = order\<lparr> order_status := status \<rparr>
           in (Some updatedOrder, s\<lparr> orders := map_set (orders s) i updatedOrder \<rparr>)))"

definition mem_getOrderItems :: "int \<Rightarrow> MemStorage \<Rightarrow> OrderItem list" where
  "mem_getOrderItems oid s =
     filter (\<lambda>item. orderItem_orderId item = oid) (map_values (orderItems s))"

definition mem_createOrderItem ::
    "InsertOrderItem \<Rightarrow> MemStorage \<Rightarrow> OrderItem \<times> MemStorage" where
  "mem_createOrderItem insertOrderItem s =
     (let i = orderItemId s;
          orderItem = \<lparr> orderItem_id = i,
                        orderItem_orderId = insertOrderItem_orderId insertOrderItem,
                        orderItem_productId = insertOrderItem_productId insertOrderItem,
                        orderItem_quantity = insertOrderItem_quantity insertOrderItem,
                        orderItem_price = insertOrderItem_price insertOrderItem \<rparr>
      in (orderItem,
          s\<lparr> orderItems := map_set (orderItems s) i orderItem, orderItemId := js_increment i \<rparr>))"

subsection \<open>Subscribers and contacts\<close>

definition mem_getSubscribers :: "MemStorage \<Rightarrow> Subscriber list" where
  "mem_getSubscribers s = map_values (subscribers s)"


definition mem_createSubscriber ::
    "Date \<Rightarrow> InsertSubscriber \<Rightarrow> MemStorage \<Rightarrow> Subscriber \<times> MemStorage" where
  "mem_createSubscriber createdAt insertSubscriber s =
     (let i = subscriberId s;
          subscriber = \<lparr> subscriber_id = i,
                         subscriber_email = insertSubscriber_email insertSubscriber,
                         subscriber_createdAt = Some createdAt \<rparr>
      in (subscriber,
          s\<lparr> subscribers := map_set (subscribers s) i subscriber, subscriberId := js_increment i \<rparr>))"

definition mem_createContact ::
    "Date \<Rightarrow> InsertContact \<Rightarrow> MemStorage \<Rightarrow> Contact \<times> MemStorage" where
  "mem_createContact createdAt insertContact s =
     (let i = contactId s;
          contact = \<lparr> contact_id = i,
                      contact_name = insertContact_name insertContact,
                      contact_email = insertContact_email insertContact,
                      contact_subject = insertContact_subject insertContact,
                      contact_message = insertContact_message insertContact,
                      contact_createdAt = Some createdAt \<rparr>
      in (contact, s\<lparr> contacts := map_set (contacts s) i contact, contactId := js_increment i \<rparr>))"

subsection \<open>Settings\<close>

text \<open>
  \<^verbatim>\<open>getSettings\<close> sorts by \<^verbatim>\<open>a.key.localeCompare(b.key)\<close>; the comparison of the locale is
  the parameter \<open>localeCompare\<close>.
\<close>

definition mem_getSettings ::
    "(string \<Rightarrow> string \<Rightarrow> int) \<Rightarrow> string option \<Rightarrow> MemStorage \<Rightarrow> Settings list" where
  "mem_getSettings localeCompare category' s =
     (let settings0 = map_values (settings s);
          settings1 =
            (if truthy_string category'
             then filter (\<lambda>setting. Some (settings_category setting) = category') settings0
             else settings0)
      in stable_sort (\<lambda>a b. localeCompare (settings_key a) (settings_key b)) settings1)"


text \<open>\<^verbatim>\<open>createSetting\<close> reads the clock twice, for \<^verbatim>\<open>createdAt\<close> and for \<^verbatim>\<open>updatedAt\<close>.\<close>

definition mem_createSetting ::
    "Date \<Rightarrow> Date \<Rightarrow> InsertSettings \<Rightarrow> MemStorage \<Rightarrow> Settings \<times> MemStorage" where
  "mem_createSetting createdAt updatedAt insertSetting s =
     (let i = settingId s;
          setting = \<lparr> settings_id = i,
                      settings_key = insertSettings_key insertSetting,
                      settings_value = insertSettings_value insertSetting,
                      settings_category =
                        nullish (insertSettings_category insertSetting) ''general'',
                      settings_description = insertSettings_description insertSetting,
                      settings_createdAt = Some createdAt,
                      settings_updatedAt = Some updatedAt \<rparr>
      in (setting, s\<lparr> settings := map_set (settings s) i setting, settingId := js_increment i \<rparr>))"

text \<open>
  \<^verbatim>\<open>{ ...setting, ...settingData }\<close>: every key of the payload replaces the field of the
  stored setting.  \<^verbatim>\<open>updateSetting\<close> then sets \<^verbatim>\<open>updatedAt\<close> to the time of the call,
  whatever the payload carries.
\<close>

definition spread_settings :: "Settings \<Rightarrow> PartialSettings \<Rightarrow> Settings" where
  "spread_settings setting settingData =
     setting
       \<lparr> settings_key := spread (settings_key setting) (partialSettings_key settingData),
         settings_value := spread (settings_value setting) (partialSettings_value settingData),
         settings_category :=
           spread (settings_category setting) (partialSettings_category settingData),
         settings_description :=
           spread (settings_description setting) (partialSettings_description settingData),
         settings_id := spread (settings_id setting) (partialSettings_id settingData),
         settings_createdAt :=
           spread (settings_createdAt setting) (partialSettings_createdAt settingData),
         settings_updatedAt :=
           spread (settings_updatedAt setting) (partialSettings_updatedAt settingData) \<rparr>"

definition mem_updateSetting ::
    "Date \<Rightarrow> int \<Rightarrow> PartialSettings \<Rightarrow> MemStorage \<Rightarrow> Settings option \<times> MemStorage" where
  "mem_updateSetting updatedAt i settingData s =
     (case map_get (settings s) i of
        None \<Rightarrow> (None, s)
      | Some setting \<Rightarrow>
          (let updatedSetting =
                 (spread_settings setting settingData)\<lparr> settings_updatedAt := Some updatedAt \<rparr>
           in (Some updatedSetting, s\<lparr> settings := map_set (settings s) i updatedSetting \<rparr>)))"

definition mem_deleteSetting :: "int \<Rightarrow> MemStorage \<Rightarrow> bool \<times> MemStorage" where
  "mem_deleteSetting i s =
     (let exists = map_has (settings s) i
      in if exists then (True, s\<lparr> settings := map_delete (settings s) i \<rparr>)
         else (False, s))"

subsection \<open>Construction and seeding\<close>

text \<open>The demonstration data of \<^verbatim>\<open>initializeData\<close>.\<close>

definition swimwear :: InsertCategory where
  "swimwear =
     \<lparr> insertCategory_name = ''Swimwear'',
       insertCategory_slug = ''swimwear'' \<rparr>"

definition resort :: InsertCategory where
  "resort =
     \<lparr> insertCategory_name = ''Resort Wear'',
       insertCategory_slug = ''resort-wear'' \<rparr>"

definition accessories :: InsertCategory where
  "accessories =
     \<lparr> insertCategory_name = ''Accessories'',
       insertCategory_slug = ''accessories'' \<rparr>"

definition jewelry :: InsertCategory where
  "jewelry =
     \<lparr> insertCategory_name = ''Sustainable Jewelry'',
       insertCategory_slug = ''jewelry'' \<rparr>"

definition homewear :: InsertCategory where
  "homewear =
     \<lparr> insertCategory_name = ''Home Collection'',
       insertCategory_slug = ''home-collection'' \<rparr>"

definition comingSoon :: InsertCategory where
  "comingSoon =
     \<lparr> insertCategory_name = ''Coming Soon'',
       insertCategory_slug = ''coming-soon'' \<rparr>"

definition product1 :: InsertProduct where
  "product1 =
     \<lparr> insertProduct_name = ''Coral Reef One-Piece'',
       insertProduct_description = ''Made from recycled nylon, this luxurious one-piece swimsuit features a stunning coral-inspired design and offers excellent support.'',
       insertProduct_price = 250,
       insertProduct_discountPrice = None,
       insertProduct_images = Some [''https://images.unsplash.com/photo-1570900649218-2d1a3508ee65?ixlib=rb-4.0.3&ixid=M3wxMjA3fDB8MHxwaG90by1wYWdlfHx8fGVufDB8fHx8fA%3D%3D&auto=format&fit=crop&w=736&q=80''],
       insertProduct_category = ''swimwear'',
       insertProduct_inStock = Some True,
       insertProduct_isFeatured = Some True,
       insertProduct_isLimited = Some True,
       insertProduct_limitedCount = Some 50,
       insertProduct_sustainableMaterials = Some [''Recycled Nylon''],
       insertProduct_madeIn = Some ''India'' \<rparr>"

definition product2 :: InsertProduct where
  "product2 =
     \<lparr> insertProduct_name = ''Amalfi Halter Bikini'',
       insertProduct_description = (''This elegant halter bikini is crafted from Econyl'' @ [CHR 0xAE] @ '' regenerated nylon, offering both sustainability and timeless style.''),
       insertProduct_price = 225,
       insertProduct_discountPrice = None,
       insertProduct_images = Some [''https://images.unsplash.com/photo-1574177556859-1362f72ed6f9?ixlib=rb-4.0.3&ixid=M3wxMjA3fDB8MHxwaG90by1wYWdlfHx8fGVufDB8fHx8fA%3D%3D&auto=format&fit=crop&w=765&q=80''],
       insertProduct_category = ''swimwear'',
       insertProduct_inStock = Some True,
       insertProduct_isFeatured = Some True,
       insertProduct_isLimited = Some True,
       insertProduct_limitedCount = Some 35,
       insertProduct_sustainableMaterials = Some [(''Econyl'' @ [CHR 0xAE])],
       insertProduct_madeIn = Some ''Italy'' \<rparr>"

definition product3 :: InsertProduct where
  "product3 =
     \<lparr> insertProduct_name = ''Jaipur Bandeau Set'',
       insertProduct_description = ''A stunning bandeau bikini set inspired by the colors of Jaipur, made with sustainable linen blend fabric.'',
       insertProduct_price = 275,
       insertProduct_discountPrice = None,
       insertProduct_images = Some [''https://images.unsplash.com/photo-1625039217876-334db65a549a?ixlib=rb-4.0.3&ixid=M3wxMjA3fDB8MHxwaG90by1wYWdlfHx8fGVufDB8fHx8fA%3D%3D&auto=format&fit=crop&w=687&q=80''],
       insertProduct_category = ''swimwear'',
       insertProduct_inStock = Some True,
       insertProduct_isFeatured = Some True,
       insertProduct_isLimited = Some False,
       insertProduct_limitedCount = None,
       insertProduct_sustainableMaterials = Some [''Sustainable Linen Blend''],
       insertProduct_madeIn = Some ''India'' \<rparr>"

definition product4 :: InsertProduct where
  "product4 =
     \<lparr> insertProduct_name = ''Kerala Linen Maxi Dress'',
       insertProduct_description = ''An elegant flowing maxi dress made from 100% organic linen, perfect for warm evenings by the sea.'',
       insertProduct_price = 385,
       insertProduct_discountPrice = None,
       insertProduct_images = Some [''https://images.unsplash.com/photo-1600102587914-39f3a4a48266?ixlib=rb-4.0.3&ixid=M3wxMjA3fDB8MHxwaG90by1wYWdlfHx8fGVufDB8fHx8fA%3D%3D&auto=format&fit=crop&w=687&q=80''],
       insertProduct_category = ''resort-wear'',
       insertProduct_inStock = Some True,
       insertProduct_isFeatured = Some True,
       insertProduct_isLimited = Some False,
       insertProduct_limitedCount = None,
       insertProduct_sustainableMaterials = Some [''Organic Linen''],
       insertProduct_madeIn = Some ''India'' \<rparr>"

definition product5 :: InsertProduct where
  "product5 =
     \<lparr> insertProduct_name = ''Mumbai Silk Kaftan'',
       insertProduct_description = ''A luxurious peace silk kaftan with hand-painted motifs inspired by Mumbai's coastal landscapes.'',
       insertProduct_price = 420,
       insertProduct_discountPrice = None,
       insertProduct_images = Some [''https://images.unsplash.com/photo-1562137369-1a1a0bc66744?ixlib=rb-4.0.3&ixid=M3wxMjA3fDB8MHxwaG90by1wYWdlfHx8fGVufDB8fHx8fA%3D%3D&auto=format&fit=crop&w=1470&q=80''],
       insertProduct_category = ''resort-wear'',
       insertProduct_inStock = Some True,
       insertProduct_isFeatured = Some False,
       insertProduct_isLimited = Some True,
       insertProduct_limitedCount = Some 25,
       insertProduct_sustainableMaterials = Some [''Peace Silk''],
       insertProduct_madeIn = Some ''India'' \<rparr>"

definition product6 :: InsertProduct where
  "product6 =
     \<lparr> insertProduct_name = ''Rajasthan Woven Tote'',
       insertProduct_description = ''Handcrafted tote bag made from recycled cotton and traditional Rajasthani weaving techniques.'',
       insertProduct_price = 180,
       insertProduct_discountPrice = None,
       insertProduct_images = Some [''https://images.unsplash.com/photo-1590874103328-eac38a683ce7?ixlib=rb-4.0.3&ixid=M3wxMjA3fDB8MHxwaG90by1wYWdlfHx8fGVufDB8fHx8fA%3D%3D&auto=format&fit=crop&w=876&q=80''],
       insertProduct_category = ''accessories'',
       insertProduct_inStock = Some True,
       insertProduct_isFeatured = Some True,
       insertProduct_isLimited = Some False,
       insertProduct_limitedCount = None,
       insertProduct_sustainableMaterials = Some [''Recycled Cotton''],
       insertProduct_madeIn = Some ''India'' \<rparr>"

definition product7 :: InsertProduct where
  "product7 =
     \<lparr> insertProduct_name = ''Bombay Sun Hat'',
       insertProduct_description = ''A wide-brimmed sun hat woven from sustainably harvested palm leaves, offering stylish protection from the sun.'',
       insertProduct_price = 135,
       insertProduct_discountPrice = None,
       insertProduct_images = Some [''https://images.unsplash.com/photo-1575428652377-a2d80e2277fc?ixlib=rb-4.0.3&ixid=M3wxMjA3fDB8MHxwaG90by1wYWdlfHx8fGVufDB8fHx8fA%3D%3D&auto=format&fit=crop&w=1470&q=80''],
       insertProduct_category = ''accessories'',
       insertProduct_inStock = Some True,
       insertProduct_isFeatured = Some False,
       insertProduct_isLimited = Some False,
       insertProduct_limitedCount = None,
       insertProduct_sustainableMaterials = Some [''Natural Palm''],
       insertProduct_madeIn = Some ''India'' \<rparr>"

definition product8 :: InsertProduct where
  "product8 =
     \<lparr> insertProduct_name = ''Ocean Wave Earrings'',
       insertProduct_description = ''Delicate silver earrings crafted from recycled sterling silver, inspired by the waves of the Arabian Sea.'',
       insertProduct_price = 165,
       insertProduct_discountPrice = None,
       insertProduct_images = Some [''https://images.unsplash.com/photo-1630019852942-f87a2bdad8c9?ixlib=rb-4.0.3&ixid=M3wxMjA3fDB8MHxwaG90by1wYWdlfHx8fGVufDB8fHx8fA%3D%3D&auto=format&fit=crop&w=687&q=80''],
       insertProduct_category = ''jewelry'',
       insertProduct_inStock = Some True,
       insertProduct_isFeatured = Some True,
       insertProduct_isLimited = Some True,
       insertProduct_limitedCount = Some 30,
       insertProduct_sustainableMaterials = Some [''Recycled Silver''],
       insertProduct_madeIn = Some ''India'' \<rparr>"

definition product9 :: InsertProduct where
  "product9 =
     \<lparr> insertProduct_name = ''Lotus Pendant Necklace'',
       insertProduct_description = ''A beautiful lotus-inspired pendant made from ethical gold, symbolizing purity and sustainability.'',
       insertProduct_price = 210,
       insertProduct_discountPrice = None,
       insertProduct_images = Some [''https://images.unsplash.com/photo-1599643478518-a784e5dc4c8f?ixlib=rb-4.0.3&ixid=M3wxMjA3fDB8MHxwaG90by1wYWdlfHx8fGVufDB8fHx8fA%3D%3D&auto=format&fit=crop&w=687&q=80''],
       insertProduct_category = ''jewelry'',
       insertProduct_inStock = Some True,
       insertProduct_isFeatured = Some True,
       insertProduct_isLimited = Some False,
       insertProduct_limitedCount = None,
       insertProduct_sustainableMaterials = Some [''Ethical Gold''],
       insertProduct_madeIn = Some ''India'' \<rparr>"

definition product10 :: InsertProduct where
  "product10 =
     \<lparr> insertProduct_name = ''Organic Cotton Throw'',
       insertProduct_description = ''A luxurious organic cotton throw with hand-block printed designs, perfect for adding sustainable elegance to your home.'',
       insertProduct_price = 195,
       insertProduct_discountPrice = None,
       insertProduct_images = Some [''https://images.unsplash.com/photo-1617004887317-5ca23b82d1b3?ixlib=rb-4.0.3&ixid=M3wxMjA3fDB8MHxwaG90by1wYWdlfHx8fGVufDB8fHx8fA%3D%3D&auto=format&fit=crop&w=1470&q=80''],
       insertProduct_category = ''home-collection'',
       insertProduct_inStock = Some True,
       insertProduct_isFeatured = Some True,
       insertProduct_isLimited = Some False,
       insertProduct_limitedCount = None,
       insertProduct_sustainableMaterials = Some [''Organic Cotton''],
       insertProduct_madeIn = Some ''India'' \<rparr>"

definition product11 :: InsertProduct where
  "product11 =
     \<lparr> insertProduct_name = ''Coconut Wax Candle Set'',
       insertProduct_description = ''Set of three coconut wax candles with essential oil fragrances inspired by Indian botanicals, in recycled brass containers.'',
       insertProduct_price = 120,
       insertProduct_discountPrice = None,
       insertProduct_images = Some [''https://images.unsplash.com/photo-1588372405219-e40d64efafcb?ixlib=rb-4.0.3&ixid=M3wxMjA3fDB8MHxwaG90by1wYWdlfHx8fGVufDB8fHx8fA%3D%3D&auto=format&fit=crop&w=688&q=80''],
       insertProduct_category = ''home-collection'',
       insertProduct_inStock = Some True,
       insertProduct_isFeatured = Some False,
       insertProduct_isLimited = Some True,
       insertProduct_limitedCount = Some 40,
       insertProduct_sustainableMaterials = Some [''Coconut Wax'', ''Recycled Brass''],
       insertProduct_madeIn = Some ''India'' \<rparr>"

definition article1 :: InsertArticle where
  "article1 =
     \<lparr> insertArticle_title = ''The Making of Sustainable Fabrics'',
       insertArticle_slug = ''making-of-sustainable-fabrics'',
       insertArticle_content = ''Discover how we transform renewable resources into luxurious fabrics while minimizing environmental impact...'',
       insertArticle_excerpt = Some ''Discover how we transform renewable resources into luxurious fabrics while minimizing environmental impact.'',
       insertArticle_coverImage = Some ''https://images.unsplash.com/photo-1503664974816-7691ca85b22f?ixlib=rb-4.0.3&ixid=M3wxMjA3fDB8MHxwaG90by1wYWdlfHx8fGVufDB8fHx8fA%3D%3D&auto=format&fit=crop&w=687&q=80'',
       insertArticle_category = Some ''sustainability'' \<rparr>"

definition article2 :: InsertArticle where
  "article2 =
     \<lparr> insertArticle_title = ''kharidifyWomen: Aditi Rao Hydari'',
       insertArticle_slug = ''shahu-women-aditi-rao-hydari'',
       insertArticle_content = ''A conversation with the acclaimed actress about sustainability, style, and the power of conscious choices...'',
       insertArticle_excerpt = Some ''A conversation with the acclaimed actress about sustainability, style, and the power of conscious choices.'',
       insertArticle_coverImage = Some ''https://images.unsplash.com/photo-1529626455594-4ff0802cfb7e?ixlib=rb-4.0.3&ixid=M3wxMjA3fDB8MHxwaG90by1wYWdlfHx8fGVufDB8fHx8fA%3D%3D&auto=format&fit=crop&w=687&q=80'',
       insertArticle_category = Some ''shahu-women'' \<rparr>"

definition article3 :: InsertArticle where
  "article3 =
     \<lparr> insertArticle_title = ''Cultural Inspirations: Mumbai to Jaipur'',
       insertArticle_slug = ''cultural-inspirations-mumbai-to-jaipur'',
       insertArticle_content = ''Exploring the rich textile traditions and architectural motifs that influence our design philosophy...'',
       insertArticle_excerpt = Some ''Exploring the rich textile traditions and architectural motifs that influence our design philosophy.'',
       insertArticle_coverImage = Some ''https://images.unsplash.com/photo-1596547615875-bced1ffb5c6b?ixlib=rb-4.0.3&ixid=M3wxMjA3fDB8MHxwaG90by1wYWdlfHx8fGVufDB8fHx8fA%3D%3D&auto=format&fit=crop&w=733&q=80'',
       insertArticle_category = Some ''inspiration'' \<rparr>"

definition empty_storage :: MemStorage where
  "empty_storage =
     \<lparr> users = [], products = [], categories = [], articles = [], orders = [],
       orderItems = [], subscribers = [], contacts = [], settings = [],
       userId = 1, productId = 1, categoryId = 1, articleId = 1, orderId = 1,
       orderItemId = 1, subscriberId = 1, contactId = 1, settingId = 1 \<rparr>"

text \<open>
  \<^verbatim>\<open>initializeData\<close> creates six categories, eleven products and three articles, in
  this order.  The creations of products and articles read the clock: \<open>clock k\<close> is
  the time of the \<open>k\<close>-th reading.
\<close>

definition initializeData :: "(nat \<Rightarrow> Date) \<Rightarrow> MemStorage \<Rightarrow> MemStorage" where
  "initializeData clock s0 =
     (let s1 = fold (\<lambda>c s. snd (mem_createCategory c s))
                 [swimwear, resort, accessories, jewelry, homewear, comingSoon] s0;
          s2 = fold (\<lambda>(k, p) s. snd (mem_createProduct (clock k) p s))
                 (enumerate 0 [product1, product2, product3, product4, product5, product6,
                               product7, product8, product9, product10, product11]) s1
      in fold (\<lambda>(k, a) s. snd (mem_createArticle (clock k) a s))
           (enumerate 11 [article1, article2, article3]) s2)"

definition new_MemStorage :: "(nat \<Rightarrow> Date) \<Rightarrow> MemStorage" where
  "new_MemStorage clock = initializeData clock empty_storage"

subsection \<open>Reachable states\<close>

text \<open>
  The calls of the interface that write, each with the clock readings it makes.  The
  reading operations leave the state as it is.
\<close>

datatype call =
    CreateUser Date InsertUser
  | CreateProduct Date InsertProduct
  | UpdateProduct int PartialProduct
  | DeleteProduct int
  | CreateCategory InsertCategory
  | CreateArticle Date InsertArticle
  | CreateOrder Date InsertOrder
  | UpdateOrderStatus int string
  | CreateOrderItem InsertOrderItem
  | CreateSubscriber Date InsertSubscriber
  | CreateContact Date InsertContact
  | CreateSetting Date Date InsertSettings
  | UpdateSetting Date int PartialSettings
  | DeleteSetting int

fun exec :: "call \<Rightarrow> MemStorage \<Rightarrow> MemStorage" where
  "exec (CreateUser t u) s = snd (mem_createUser t u s)"
| "exec (CreateProduct t p) s = snd (mem_createProduct t p s)"
| "exec (UpdateProduct i p) s = snd (mem_updateProduct i p s)"
| "exec (DeleteProduct i) s = snd (mem_deleteProduct i s)"
| "exec (CreateCategory c) s = snd (mem_createCategory c s)"
| "exec (CreateArticle t a) s = snd (mem_createArticle t a s)"
| "exec (CreateOrder t ord) s = snd (mem_createOrder t ord s)"
| "exec (UpdateOrderStatus i status) s = snd (mem_updateOrderStatus i status s)"
| "exec (CreateOrderItem it) s = snd (mem_createOrderItem it s)"
| "exec (CreateSubscriber t sub) s = snd (mem_createSubscriber t sub s)"
| "exec (CreateContact t c) s = snd (mem_createContact t c s)"
| "exec (CreateSetting t t' st) s = snd (mem_createSetting t t' st s)"
| "exec (UpdateSetting t i st) s = snd (mem_updateSetting t i st s)"
| "exec (DeleteSetting i) s = snd (mem_deleteSetting i s)"

text \<open>
  A call is well typed when its payload has the declared type: the payload of an update
  carries none of the keys \<^verbatim>\<open>id\<close>, \<^verbatim>\<open>createdAt\<close>, \<^verbatim>\<open>updatedAt\<close>.  The payloads of the
  creations have their declared type by their records.
\<close>

fun well_typed :: "call \<Rightarrow> bool" where
  "well_typed (UpdateProduct i p) \<longleftrightarrow>
     partialProduct_id p = None \<and> partialProduct_createdAt p = None"
| "well_typed (UpdateSetting t i st) \<longleftrightarrow>
     partialSettings_id st = None \<and> partialSettings_createdAt st = None \<and>
     partialSettings_updatedAt st = None"
| "well_typed (CreateUser t u) \<longleftrightarrow> True"
| "well_typed (CreateProduct t p) \<longleftrightarrow> True"
| "well_typed (DeleteProduct i) \<longleftrightarrow> True"
| "well_typed (CreateCategory c) \<longleftrightarrow> True"
| "well_typed (CreateArticle t a) \<longleftrightarrow> True"
| "well_typed (CreateOrder t ord) \<longleftrightarrow> True"
| "well_typed (UpdateOrderStatus i status) \<longleftrightarrow> True"
| "well_typed (CreateOrderItem it) \<longleftrightarrow> True"
| "well_typed (CreateSubscriber t sub) \<longleftrightarrow> True"
| "well_typed (CreateContact t c) \<longleftrightarrow> True"
| "well_typed (CreateSetting t t' st) \<longleftrightarrow> True"
| "well_typed (DeleteSetting i) \<longleftrightarrow> True"

text \<open>
  The states reachable from the constructor by well-typed calls.  A state after a call
  that is not well typed is written out with \<open>exec\<close> where a theorem is about one.
\<close>

inductive reachable :: "MemStorage \<Rightarrow> bool" where
  constructed: "reachable (new_MemStorage clock)"
| called: "reachable s \<Longrightarrow> well_typed c \<Longrightarrow> reachable (exec c s)"

section \<open>The relational backend\<close>

text \<open>
  \<^verbatim>\<open>class DatabaseStorage\<close> builds one SQL statement per operation with the query builder
  and awaits it.  The tables the statements below touch are lists of rows, and a
  statement has the meaning PostgreSQL gives it on the schema of the schema reference
  document: \<^verbatim>\<open>order_items.product_id\<close> references \<^verbatim>\<open>products.id\<close>, so deleting a
  referenced product is refused; \<^verbatim>\<open>id\<close> is the primary key; \<^verbatim>\<open>updated_at\<close> has a default
  for inserted rows only; a negative \<^verbatim>\<open>OFFSET\<close> is an error; an update needs a column to
  set.  A failed statement rejects the operation's promise: the operation returns the
  error.  Losing the connection is not part of the model.
\<close>

datatype db_error = ForeignKeyViolation | UniqueViolation | NegativeOffset | NoValuesToSet

record Database =
  products_table :: "Product list"
  orderItems_table :: "OrderItem list"
  articles_table :: "Article list"
  settings_table :: "Settings list"

text \<open>
  A \<^verbatim>\<open>SELECT\<close> as the query builder sends it: the conditions of its \<^verbatim>\<open>WHERE\<close>, and its
  \<^verbatim>\<open>LIMIT\<close> and \<^verbatim>\<open>OFFSET\<close> clauses, each absent when the operation did not apply it.
  \<^verbatim>\<open>if (options?.limit) query = query.limit(options.limit)\<close> applies a limit that is
  truthy, and the builder writes \<^verbatim>\<open>LIMIT\<close> only for a limit that is not negative;
  \<^verbatim>\<open>if (options?.offset) query = query.offset(options.offset)\<close> applies an offset that is
  truthy, and the builder writes it as it is.
\<close>

record clauses =
  where_category :: "string option"
  where_featured :: "bool option"
  limit_clause :: "int option"
  offset_clause :: "int option"

definition limit_of :: "int option \<Rightarrow> int option" where
  "limit_of limit' = (if truthy_number limit' \<and> 0 \<le> the limit' then limit' else None)"

definition offset_of :: "int option \<Rightarrow> int option" where
  "offset_of offset' = (if truthy_number offset' then offset' else None)"

definition category_of :: "string option \<Rightarrow> string option" where
  "category_of category' = (if truthy_string category' then category' else None)"

text \<open>\<^verbatim>\<open>ORDER BY created_at DESC\<close>: newest first, \<^verbatim>\<open>NULL\<close> before every time.\<close>

fun desc_createdAt :: "Date option \<Rightarrow> Date option \<Rightarrow> int" where
  "desc_createdAt None None = 0"
| "desc_createdAt None (Some b) = - 1"
| "desc_createdAt (Some a) None = 1"
| "desc_createdAt (Some a) (Some b) = (if b < a then - 1 else if a < b then 1 else 0)"

text \<open>
  The database orders the selected rows by the sort key, skips \<^verbatim>\<open>OFFSET\<close> rows and
  returns at most \<^verbatim>\<open>LIMIT\<close> rows.  Rows with equal sort keys come in an order of the
  database's choosing: the parameter \<open>scan\<close> is the order in which the database meets
  the rows a statement selects, whatever it is for the statement and the rows, and
  rows with equal keys keep that order.
\<close>

definition run_select ::
    "(clauses \<Rightarrow> 'a list \<Rightarrow> 'a list) \<Rightarrow> clauses \<Rightarrow> ('a \<Rightarrow> 'a \<Rightarrow> int) \<Rightarrow> 'a list \<Rightarrow>
     db_error + 'a list" where
  "run_select scan q cmp selected =
     (if (case offset_clause q of None \<Rightarrow> False | Some k \<Rightarrow> k < 0) then Inl NegativeOffset
      else
        (let ordered = stable_sort cmp (scan q selected);
             skipped = (case offset_clause q of None \<Rightarrow> ordered | Some k \<Rightarrow> drop (nat k) ordered)
         in Inr (case limit_clause q of None \<Rightarrow> skipped | Some n \<Rightarrow> take (nat n) skipped)))"

definition db_getProducts ::
    "(clauses \<Rightarrow> Product list \<Rightarrow> Product list) \<Rightarrow> ProductOptions option \<Rightarrow> Database \<Rightarrow>
     db_error + Product list" where
  "db_getProducts scan options db =
     (let filters =
            (if truthy_string (Option.bind options category)
             then [\<lambda>row. Some (product_category row) = Option.bind options category] else []) @
            (if Option.bind options featured \<noteq> None
             then [\<lambda>row. product_isFeatured row = Option.bind options featured] else []);
          rows = (if length filters > 0
                  then filter (\<lambda>row. list_all (\<lambda>f. f row) filters) (products_table db)
                  else products_table db);
          q = \<lparr> where_category = category_of (Option.bind options category),
                where_featured = Option.bind options featured,
                limit_clause = limit_of (Option.bind options limit),
                offset_clause = offset_of (Option.bind options offset) \<rparr>
      in run_select scan q
           (\<lambda>a b. desc_createdAt (product_createdAt a) (product_createdAt b)) rows)"


definition db_getArticles ::
    "(clauses \<Rightarrow> Article list \<Rightarrow> Article list) \<Rightarrow> ListOptions option \<Rightarrow> Database \<Rightarrow>
     db_error + Article list" where
  "db_getArticles scan options db =
     (let rows = (if truthy_string (Option.bind options category)
                  then filter (\<lambda>row. article_category row = Option.bind options category)
                         (articles_table db)
                  else articles_table db);
          q = \<lparr> where_category = category_of (Option.bind options category),
                where_featured = None,
                limit_clause = limit_of (Option.bind options limit),
                offset_clause = offset_of (Option.bind options offset) \<rparr>
      in run_select scan q
           (\<lambda>a b. desc_createdAt (article_createdAt a) (article_createdAt b)) rows)"

text \<open>\<^verbatim>\<open>ORDER BY key ASC\<close> compares keys by the collation of the database, \<open>collate\<close>.\<close>

definition db_getSettings ::
    "(string \<Rightarrow> string \<Rightarrow> int) \<Rightarrow> (clauses \<Rightarrow> Settings list \<Rightarrow> Settings list) \<Rightarrow>
     string option \<Rightarrow> Database \<Rightarrow> db_error + Settings list" where
  "db_getSettings collate scan category' db =
     (let rows = (if truthy_string category'
                  then filter (\<lambda>row. Some (settings_category row) = category') (settings_table db)
                  else settings_table db);
          q = \<lparr> where_category = category_of category', where_featured = None,
                limit_clause = None, offset_clause = None \<rparr>
      in run_select scan q (\<lambda>a b. collate (settings_key a) (settings_key b)) rows)"

text \<open>
  \<^verbatim>\<open>db.update(settings).set(setting).where(eq(settings.id, id)).returning()\<close>: the columns
  the payload carries are set in the rows with this id, the updated rows are returned,
  and \<^verbatim>\<open>const [updatedSetting]\<close> is the first of them, or \<^verbatim>\<open>undefined\<close>.  The operation
  does not read the clock.  A payload that carries an \<^verbatim>\<open>id\<close> moves the row to that id,
  which the primary key refuses when another row has it.
\<close>

definition no_values :: "PartialSettings \<Rightarrow> bool" where
  "no_values setting \<longleftrightarrow>
     partialSettings_key setting = None \<and> partialSettings_value setting = None \<and>
     partialSettings_category setting = None \<and> partialSettings_description setting = None \<and>
     partialSettings_id setting = None \<and> partialSettings_createdAt setting = None \<and>
     partialSettings_updatedAt setting = None"

definition id_taken :: "int \<Rightarrow> PartialSettings \<Rightarrow> Database \<Rightarrow> bool" where
  "id_taken i setting db \<longleftrightarrow>
     (case partialSettings_id setting of
        None \<Rightarrow> False
      | Some j \<Rightarrow>
          j \<noteq> i \<and> list_ex (\<lambda>row. settings_id row = i) (settings_table db) \<and>
          list_ex (\<lambda>row. settings_id row = j) (settings_table db))"

definition db_updateSetting ::
    "int \<Rightarrow> PartialSettings \<Rightarrow> Database \<Rightarrow> db_error + Settings option \<times> Database" where
  "db_updateSetting i setting db =
     (if no_values setting then Inl NoValuesToSet
      else if id_taken i setting db then Inl UniqueViolation
      else
        (let returning = map (\<lambda>row. spread_settings row setting)
                           (filter (\<lambda>row. settings_id row = i) (settings_table db));
             updatedSetting = (case returning of [] \<Rightarrow> None | row # _ \<Rightarrow> Some row)
         in Inr (updatedSetting,
                 db\<lparr> settings_table :=
                       map (\<lambda>row. if settings_id row = i then spread_settings row setting else row)
                         (settings_table db) \<rparr>)))"


section \<open>Stated properties and example states\<close>

text \<open>
  The predicates in which the theorems below state their properties, and the small
  states, rows and payloads on which they are evaluated.
\<close>

definition empty_database :: Database where
  "empty_database =
     \<lparr> products_table = [], orderItems_table = [], articles_table = [], settings_table = [] \<rparr>"

definition product_row :: Product where
  "product_row = fst (mem_createProduct 1700000000000 product1 empty_storage)"

definition site_title :: InsertSettings where
  "site_title =
     \<lparr> insertSettings_key = ''site.title'', insertSettings_value = Some ''kharidify'',
       insertSettings_category = None, insertSettings_description = None \<rparr>"

definition setting_row :: Settings where
  "setting_row = fst (mem_createSetting 1700000000000 1700000000001 site_title empty_storage)"

definition one_product_store :: MemStorage where
  "one_product_store = empty_storage\<lparr> products := [(1, product_row)], productId := 2 \<rparr>"

definition one_setting_store :: MemStorage where
  "one_setting_store = empty_storage\<lparr> settings := [(1, setting_row)], settingId := 2 \<rparr>"

definition one_row_database :: Database where
  "one_row_database =
     empty_database\<lparr> products_table := [product_row], settings_table := [setting_row] \<rparr>"

definition row_with_id :: "int \<Rightarrow> Product" where
  "row_with_id k = product_row\<lparr> product_id := k \<rparr>"

definition five_product_store :: MemStorage where
  "five_product_store =
     empty_storage
       \<lparr> products := [(1, row_with_id 1), (2, row_with_id 2), (3, row_with_id 3),
                      (4, row_with_id 4), (5, row_with_id 5)],
         productId := 6 \<rparr>"

text \<open>The payload \<^verbatim>\<open>{price: 999}\<close>.\<close>

definition price_999 :: PartialProduct where
  "price_999 =
     \<lparr> partialProduct_name = None, partialProduct_description = None,
       partialProduct_price = Some 999, partialProduct_discountPrice = None,
       partialProduct_images = None, partialProduct_category = None,
       partialProduct_inStock = None, partialProduct_isFeatured = None,
       partialProduct_isLimited = None, partialProduct_limitedCount = None,
       partialProduct_sustainableMaterials = None, partialProduct_madeIn = None,
       partialProduct_id = None, partialProduct_createdAt = None \<rparr>"

text \<open>
  What an update of a product must leave alone: every field the payload does not
  carry, the id and the creation time among them.
\<close>

definition keeps_absent_fields :: "Product \<Rightarrow> PartialProduct \<Rightarrow> Product \<Rightarrow> bool" where
  "keeps_absent_fields existing product updated \<longleftrightarrow>
     (partialProduct_id product = None \<longrightarrow> product_id updated = product_id existing) \<and>
     (partialProduct_createdAt product = None \<longrightarrow>
        product_createdAt updated = product_createdAt existing) \<and>
     (partialProduct_name product = None \<longrightarrow> product_name updated = product_name existing) \<and>
     (partialProduct_description product = None \<longrightarrow>
        product_description updated = product_description existing) \<and>
     (partialProduct_price product = None \<longrightarrow> product_price updated = product_price existing) \<and>
     (partialProduct_discountPrice product = None \<longrightarrow>
        product_discountPrice updated = product_discountPrice existing) \<and>
     (partialProduct_images product = None \<longrightarrow> product_images updated = product_images existing) \<and>
     (partialProduct_category product = None \<longrightarrow>
        product_category updated = product_category existing) \<and>
     (partialProduct_inStock product = None \<longrightarrow>
        product_inStock updated = product_inStock existing) \<and>
     (partialProduct_isFeatured product = None \<longrightarrow>
        product_isFeatured updated = product_isFeatured existing) \<and>
     (partialProduct_isLimited product = None \<longrightarrow>
        product_isLimited updated = product_isLimited existing) \<and>
     (partialProduct_limitedCount product = None \<longrightarrow>
        product_limitedCount updated = product_limitedCount existing) \<and>
     (partialProduct_sustainableMaterials product = None \<longrightarrow>
        product_sustainableMaterials updated = product_sustainableMaterials existing) \<and>
     (partialProduct_madeIn product = None \<longrightarrow> product_madeIn updated = product_madeIn existing)"

text \<open>
  The listing of products in the words of the specification: the category filter and
  the featured filter when supplied, then the first \<^verbatim>\<open>offset\<close> elements dropped, then
  at most \<^verbatim>\<open>limit\<close> elements kept; an absent offset drops nothing and an absent limit
  keeps all.
\<close>

definition spec_getProducts :: "ProductOptions option \<Rightarrow> MemStorage \<Rightarrow> Product list" where
  "spec_getProducts options s =
     (let byCategory =
            (case Option.bind options category of
               None \<Rightarrow> map_values (products s)
             | Some c \<Rightarrow> filter (\<lambda>product. product_category product = c) (map_values (products s)));
          byFeatured =
            (case Option.bind options featured of
               None \<Rightarrow> byCategory
             | Some f \<Rightarrow> filter (\<lambda>product. product_isFeatured product = Some f) byCategory);
          dropped =
            (case Option.bind options offset of
               None \<Rightarrow> byFeatured
             | Some k \<Rightarrow> drop (nat k) byFeatured)
      in case Option.bind options limit of None \<Rightarrow> dropped | Some n \<Rightarrow> take (nat n) dropped)"

text \<open>The options \<^verbatim>\<open>{limit: 0}\<close> and \<^verbatim>\<open>{limit: 2, offset: 1}\<close>.\<close>

definition limit_0 :: ProductOptions where
  "limit_0 = \<lparr> limit = Some 0, offset = None, category = None, featured = None \<rparr>"

definition limit_2_offset_1 :: ProductOptions where
  "limit_2_offset_1 = \<lparr> limit = Some 2, offset = Some 1, category = None, featured = None \<rparr>"

text \<open>An optional number that is absent or not negative.\<close>

fun absent_or_nonneg :: "int option \<Rightarrow> bool" where
  "absent_or_nonneg None = True"
| "absent_or_nonneg (Some k) = (0 \<le> k)"

definition five_row_database :: Database where
  "five_row_database =
     empty_database
       \<lparr> products_table :=
           [row_with_id 1, row_with_id 2, row_with_id 3, row_with_id 4, row_with_id 5] \<rparr>"

text \<open>The options \<^verbatim>\<open>{category: ""}\<close>.\<close>

definition category_empty :: ProductOptions where
  "category_empty = \<lparr> limit = None, offset = None, category = Some '''', featured = None \<rparr>"

text \<open>The payload \<^verbatim>\<open>{value: "kharidify store"}\<close>.\<close>

definition new_value :: PartialSettings where
  "new_value =
     \<lparr> partialSettings_key = None, partialSettings_value = Some (Some ''kharidify store''),
       partialSettings_category = None, partialSettings_description = None,
       partialSettings_id = None, partialSettings_createdAt = None,
       partialSettings_updatedAt = None \<rparr>"

text \<open>
  The invariant of a mapping and its counter: every stored entity carries its key as
  id, every key is at most the counter and below it while the counter has not reached
  its limit, and the entries are in the order of their keys.
\<close>

definition ids_ok :: "('a \<Rightarrow> int) \<Rightarrow> 'a js_map \<Rightarrow> int \<Rightarrow> bool" where
  "ids_ok ident m counter \<longleftrightarrow>
     (\<forall>(k, e) \<in> set m. ident e = k \<and> k \<le> counter \<and> (counter < counter_limit \<longrightarrow> k < counter)) \<and>
     sorted_wrt (<) (map fst m)"

definition invariant :: "MemStorage \<Rightarrow> bool" where
  "invariant s \<longleftrightarrow>
     ids_ok user_id (users s) (userId s) \<and>
     ids_ok product_id (products s) (productId s) \<and>
     ids_ok category_id (categories s) (categoryId s) \<and>
     ids_ok article_id (articles s) (articleId s) \<and>
     ids_ok order_id (orders s) (orderId s) \<and>
     ids_ok orderItem_id (orderItems s) (orderItemId s) \<and>
     ids_ok subscriber_id (subscribers s) (subscriberId s) \<and>
     ids_ok contact_id (contacts s) (contactId s) \<and>
     ids_ok settings_id (settings s) (settingId s)"

text \<open>
  The nine entity kinds, with a uniform view of a state: the counter of a kind, and
  for every entry of the kind's mapping its key and the id its entity carries.
\<close>

datatype kind =
    UserKind | ProductKind | CategoryKind | ArticleKind | OrderKind | OrderItemKind
  | SubscriberKind | ContactKind | SettingsKind

fun counter :: "kind \<Rightarrow> MemStorage \<Rightarrow> int" where
  "counter UserKind s = userId s"
| "counter ProductKind s = productId s"
| "counter CategoryKind s = categoryId s"
| "counter ArticleKind s = articleId s"
| "counter OrderKind s = orderId s"
| "counter OrderItemKind s = orderItemId s"
| "counter SubscriberKind s = subscriberId s"
| "counter ContactKind s = contactId s"
| "counter SettingsKind s = settingId s"

fun stored_ids :: "kind \<Rightarrow> MemStorage \<Rightarrow> (int \<times> int) list" where
  "stored_ids UserKind s = map (\<lambda>(k, e). (k, user_id e)) (users s)"
| "stored_ids ProductKind s = map (\<lambda>(k, e). (k, product_id e)) (products s)"
| "stored_ids CategoryKind s = map (\<lambda>(k, e). (k, category_id e)) (categories s)"
| "stored_ids ArticleKind s = map (\<lambda>(k, e). (k, article_id e)) (articles s)"
| "stored_ids OrderKind s = map (\<lambda>(k, e). (k, order_id e)) (orders s)"
| "stored_ids OrderItemKind s = map (\<lambda>(k, e). (k, orderItem_id e)) (orderItems s)"
| "stored_ids SubscriberKind s = map (\<lambda>(k, e). (k, subscriber_id e)) (subscribers s)"
| "stored_ids ContactKind s = map (\<lambda>(k, e). (k, contact_id e)) (contacts s)"
| "stored_ids SettingsKind s = map (\<lambda>(k, e). (k, settings_id e)) (settings s)"

text \<open>The id a call mints: the id of the entity a creation returns.\<close>

fun minted :: "call \<Rightarrow> MemStorage \<Rightarrow> (kind \<times> int) option" where
  "minted (CreateUser t u) s = Some (UserKind, user_id (fst (mem_createUser t u s)))"
| "minted (CreateProduct t p) s = Some (ProductKind, product_id (fst (mem_createProduct t p s)))"
| "minted (CreateCategory c) s = Some (CategoryKind, category_id (fst (mem_createCategory c s)))"
| "minted (CreateArticle t a) s = Some (ArticleKind, article_id (fst (mem_createArticle t a s)))"
| "minted (CreateOrder t ord) s = Some (OrderKind, order_id (fst (mem_createOrder t ord s)))"
| "minted (CreateOrderItem it) s =
     Some (OrderItemKind, orderItem_id (fst (mem_createOrderItem it s)))"
| "minted (CreateSubscriber t sub) s =
     Some (SubscriberKind, subscriber_id (fst (mem_createSubscriber t sub s)))"
| "minted (CreateContact t c) s = Some (ContactKind, contact_id (fst (mem_createContact t c s)))"
| "minted (CreateSetting t t' st) s =
     Some (SettingsKind, settings_id (fst (mem_createSetting t t' st s)))"
| "minted (UpdateProduct i p) s = None"
| "minted (DeleteProduct i) s = None"
| "minted (UpdateOrderStatus i status) s = None"
| "minted (UpdateSetting t i st) s = None"
| "minted (DeleteSetting i) s = None"

text \<open>The ids of a kind that a sequence of calls mints, in the order of the calls.\<close>

fun minted_ids :: "kind \<Rightarrow> call list \<Rightarrow> MemStorage \<Rightarrow> int list" where
  "minted_ids kind [] s = []"
| "minted_ids kind (c # cs) s =
     (case minted c s of
        None \<Rightarrow> []
      | Some (kind', i) \<Rightarrow> if kind' = kind then [i] else []) @ minted_ids kind cs (exec c s)"





text \<open>The payload \<^verbatim>\<open>{id: k}\<close>, which is not of the declared type of an update.\<close>

definition only_id :: "int \<Rightarrow> PartialProduct" where
  "only_id k =
     \<lparr> partialProduct_name = None, partialProduct_description = None,
       partialProduct_price = None, partialProduct_discountPrice = None,
       partialProduct_images = None, partialProduct_category = None,
       partialProduct_inStock = None, partialProduct_isFeatured = None,
       partialProduct_isLimited = None, partialProduct_limitedCount = None,
       partialProduct_sustainableMaterials = None, partialProduct_madeIn = None,
       partialProduct_id = Some k, partialProduct_createdAt = None \<rparr>"

text \<open>
  The state after construction, and the state in which the counter of the products has
  reached its limit: \<open>mint_and_drop\<close> creates a product and deletes it again, and
  \<open>worn_out\<close> is the state after as many rounds of it as lead from the counter 12 of
  the constructed state to \<^verbatim>\<open>2^53\<close>.
\<close>

definition seeded :: MemStorage where
  "seeded = new_MemStorage (\<lambda>k. 1700000000000)"

definition mint_and_drop :: "MemStorage \<Rightarrow> MemStorage" where
  "mint_and_drop s =
     exec (DeleteProduct (productId s)) (exec (CreateProduct 1700000000001 product1) s)"

definition worn_out :: MemStorage where
  "worn_out = (mint_and_drop ^^ 9007199254740980) seeded"




section \<open>The mapping\<close>

lemma map_get_set: "map_get (map_set m k v) j = (if j = k then Some v else map_get m j)"
  by (simp add: map_get_def map_set_def update_conv')

lemma map_get_delete: "map_get (map_delete m k) j = (if j = k then None else map_get m j)"
  by (simp add: map_get_def map_delete_def delete_conv')



lemma setting_row_id: "settings_id setting_row = 1"
  by (simp add: setting_row_def mem_createSetting_def empty_storage_def Let_def)

section \<open>Deletion and its result\<close>















section \<open>What deleting a product leaves alone\<close>

lemma mem_deleteProduct_others:
  "j \<noteq> i \<Longrightarrow> mem_getProduct j (snd (mem_deleteProduct i s)) = mem_getProduct j s"
  by (simp add: mem_deleteProduct_def mem_getProduct_def map_get_delete Let_def)

text \<open>
  Claim C10.  \<^verbatim>\<open>MemStorage.deleteProduct(i)\<close> leaves every product with another id as
  it was (\<^verbatim>\<open>getProduct(j)\<close> returns the same before and after), and leaves the mappings
  of the eight other entity kinds and all nine id counters unchanged.
\<close>

theorem deleteProduct_frame:
  "(\<forall>j. j \<noteq> i \<longrightarrow> mem_getProduct j (snd (mem_deleteProduct i s)) = mem_getProduct j s) \<and>
   users (snd (mem_deleteProduct i s)) = users s \<and>
   categories (snd (mem_deleteProduct i s)) = categories s \<and>
   articles (snd (mem_deleteProduct i s)) = articles s \<and>
   orders (snd (mem_deleteProduct i s)) = orders s \<and>
   orderItems (snd (mem_deleteProduct i s)) = orderItems s \<and>
   subscribers (snd (mem_deleteProduct i s)) = subscribers s \<and>
   contacts (snd (mem_deleteProduct i s)) = contacts s \<and>
   settings (snd (mem_deleteProduct i s)) = settings s \<and>
   userId (snd (mem_deleteProduct i s)) = userId s \<and>
   productId (snd (mem_deleteProduct i s)) = productId s \<and>
   categoryId (snd (mem_deleteProduct i s)) = categoryId s \<and>
   articleId (snd (mem_deleteProduct i s)) = articleId s \<and>
   orderId (snd (mem_deleteProduct i s)) = orderId s \<and>
   orderItemId (snd (mem_deleteProduct i s)) = orderItemId s \<and>
   subscriberId (snd (mem_deleteProduct i s)) = subscriberId s \<and>
   contactId (snd (mem_deleteProduct i s)) = contactId s \<and>
   settingId (snd (mem_deleteProduct i s)) = settingId s"
proof -
  have others: "\<forall>j. j \<noteq> i \<longrightarrow>
      mem_getProduct j (snd (mem_deleteProduct i s)) = mem_getProduct j s"
    by (simp add: mem_deleteProduct_others)
  have rest: "snd (mem_deleteProduct i s) = s \<or>
      snd (mem_deleteProduct i s) = s\<lparr> products := map_delete (products s) i \<rparr>"
    by (simp add: mem_deleteProduct_def Let_def)
  from rest show ?thesis
  proof
    assume "snd (mem_deleteProduct i s) = s"
    with others show ?thesis by simp
  next
    assume "snd (mem_deleteProduct i s) = s\<lparr> products := map_delete (products s) i \<rparr>"
    with others show ?thesis by simp
  qed
qed

theorem deleteProduct_frame_witness:
  "(2::int) \<noteq> 1 \<and>
   mem_getProduct 2 five_product_store = Some (row_with_id 2) \<and>
   mem_getProduct 1 (snd (mem_deleteProduct 1 five_product_store)) = None \<and>
   mem_getProduct 2 (snd (mem_deleteProduct 1 five_product_store)) = Some (row_with_id 2) \<and>
   productId (snd (mem_deleteProduct 1 five_product_store)) = 6"
  using deleteProduct_frame [of 1 five_product_store]
  by (simp add: five_product_store_def empty_storage_def mem_getProduct_def map_get_def
      mem_deleteProduct_def map_has_def map_delete_def)

section \<open>Updating a product\<close>

lemma spread_product_price_999: "spread_product p price_999 = p\<lparr> product_price := 999 \<rparr>"
  by (simp add: spread_product_def price_999_def)

lemma spread_product_keeps: "keeps_absent_fields e p (spread_product e p)"
  by (simp add: keeps_absent_fields_def spread_product_def)

lemma mem_updateProduct_absent:
  "mem_getProduct i s = None \<Longrightarrow> mem_updateProduct i product s = (None, s)"
  by (simp add: mem_updateProduct_def mem_getProduct_def)

lemma mem_updateProduct_present:
  "mem_getProduct i s = Some existing \<Longrightarrow>
   fst (mem_updateProduct i product s) = Some (spread_product existing product) \<and>
   mem_getProduct i (snd (mem_updateProduct i product s)) = Some (spread_product existing product)"
  by (simp add: mem_updateProduct_def mem_getProduct_def map_get_set Let_def)

lemma product_row_price: "product_price product_row = 250"
  by (simp add: product_row_def mem_createProduct_def empty_storage_def Let_def product1_def)

text \<open>
  Claim C4.  On an id that holds a product, \<^verbatim>\<open>MemStorage.updateProduct(id, {price: 999})\<close>
  returns the stored product with its price set to 999 and every other field as it
  was; for every payload the returned product is the one stored afterwards, and
  every field absent from the payload, the id and the creation time among them, is
  that of the product stored before.  On an id that holds no product it returns the
  absent-indicator and leaves the state as it was.
\<close>

theorem updateProduct_merges_payload:
  "(\<forall>existing. mem_getProduct i s = Some existing \<longrightarrow>
      fst (mem_updateProduct i price_999 s) = Some (existing\<lparr> product_price := 999 \<rparr>) \<and>
      (\<exists>updated. fst (mem_updateProduct i product s) = Some updated \<and>
         mem_getProduct i (snd (mem_updateProduct i product s)) = Some updated \<and>
         keeps_absent_fields existing product updated)) \<and>
   (mem_getProduct i s = None \<longrightarrow> mem_updateProduct i product s = (None, s))"
proof (intro conjI allI impI)
  fix existing assume stored: "mem_getProduct i s = Some existing"
  from mem_updateProduct_present [OF stored, of price_999]
  show "fst (mem_updateProduct i price_999 s) = Some (existing\<lparr> product_price := 999 \<rparr>)"
    by (simp add: spread_product_price_999)
  from mem_updateProduct_present [OF stored, of product] spread_product_keeps [of existing product]
  show "\<exists>updated. fst (mem_updateProduct i product s) = Some updated \<and>
         mem_getProduct i (snd (mem_updateProduct i product s)) = Some updated \<and>
         keeps_absent_fields existing product updated"
    by blast
next
  assume "mem_getProduct i s = None"
  then show "mem_updateProduct i product s = (None, s)"
    by (rule mem_updateProduct_absent)
qed

theorem updateProduct_merges_payload_witness:
  "mem_getProduct 1 one_product_store = Some product_row \<and>
   product_price product_row = 250 \<and>
   fst (mem_updateProduct 1 price_999 one_product_store) =
     Some (product_row\<lparr> product_price := 999 \<rparr>) \<and>
   mem_getProduct 7 one_product_store = None \<and>
   mem_updateProduct 7 price_999 one_product_store = (None, one_product_store)"
  using updateProduct_merges_payload [of 1 one_product_store price_999]
    updateProduct_merges_payload [of 7 one_product_store price_999]
  by (simp add: one_product_store_def empty_storage_def mem_getProduct_def map_get_def
      product_row_price)

section \<open>Listing products: filters and pagination\<close>

lemma js_slice_take_drop:
  assumes "0 \<le> k" "0 \<le> n"
  shows "js_slice xs k (k + n) = take (nat n) (drop (nat k) xs)"
proof (cases "k \<le> int (length xs)")
  case True
  with assms have "js_slice xs k (k + n) = take (nat (min (k + n) (int (length xs)) - k)) (drop (nat k) xs)"
    by (simp add: js_slice_def clamp_index_def Let_def min_def)
  also have "nat (min (k + n) (int (length xs)) - k) = min (nat n) (length xs - nat k)"
    using assms True by (simp add: min_def) linarith
  also have "take (min (nat n) (length xs - nat k)) (drop (nat k) xs) =
      take (min (nat n) (length (drop (nat k) xs))) (drop (nat k) xs)"
    by simp
  also have "\<dots> = take (nat n) (drop (nat k) xs)"
    by (simp add: min_def)
  finally show ?thesis .
next
  case False
  with assms show ?thesis
    by (simp add: js_slice_def clamp_index_def Let_def min_def)
qed

lemma js_slice_drop:
  assumes "0 \<le> k"
  shows "js_slice xs k (k + int (length xs)) = drop (nat k) xs"
  using js_slice_take_drop [OF assms, of "int (length xs)" xs] by simp

lemma or_number_offset:
  assumes "absent_or_nonneg off"
  shows "0 \<le> or_number off 0"
    and "drop (nat (or_number off 0)) xs = (case off of None \<Rightarrow> xs | Some k \<Rightarrow> drop (nat k) xs)"
  using assms by (cases off; simp add: or_number_def)+

lemma js_slice_page:
  assumes "0 \<le> k" and "absent_or_nonneg lim"
  shows "js_slice xs k (k + or_number lim (int (length xs))) =
    (case (if lim = Some 0 then None else lim) of
       None \<Rightarrow> drop (nat k) xs
     | Some n \<Rightarrow> take (nat n) (drop (nat k) xs))"
proof (cases lim)
  case None
  with assms show ?thesis by (simp add: or_number_def js_slice_drop)
next
  case (Some n)
  with assms have "0 \<le> n" by simp
  with Some assms show ?thesis
    by (cases "n = 0") (simp_all add: or_number_def js_slice_drop js_slice_take_drop)
qed

lemma mem_getProducts_paged:
  assumes off: "absent_or_nonneg (offset opts)"
    and lim: "absent_or_nonneg (limit opts)"
  shows "mem_getProducts (Some opts) s =
    spec_getProducts
      (Some (opts\<lparr> limit := (if limit opts = Some 0 then None else limit opts),
                   category := (if category opts = Some [] then None else category opts) \<rparr>)) s"
proof -
  define byCategory where "byCategory =
    (if truthy_string (category opts)
     then filter (\<lambda>product. Some (product_category product) = category opts) (map_values (products s))
     else map_values (products s))"
  define byFeatured where "byFeatured =
    (if featured opts \<noteq> None
     then filter (\<lambda>product. product_isFeatured product = featured opts) byCategory
     else byCategory)"
  have code: "mem_getProducts (Some opts) s =
      js_slice byFeatured (or_number (offset opts) 0)
        (or_number (offset opts) 0 + or_number (limit opts) (int (length byFeatured)))"
    by (simp add: mem_getProducts_def byCategory_def byFeatured_def Let_def)
  have paged: "mem_getProducts (Some opts) s =
      (case (if limit opts = Some 0 then None else limit opts) of
         None \<Rightarrow> drop (nat (or_number (offset opts) 0)) byFeatured
       | Some n \<Rightarrow> take (nat n) (drop (nat (or_number (offset opts) 0)) byFeatured))"
    unfolding code using or_number_offset(1) [OF off] lim by (rule js_slice_page)
  have cat: "byCategory =
      (case (if category opts = Some [] then None else category opts) of
         None \<Rightarrow> map_values (products s)
       | Some c \<Rightarrow> filter (\<lambda>product. product_category product = c) (map_values (products s)))"
    by (cases "category opts") (auto simp add: byCategory_def intro: filter_cong)
  have feat: "byFeatured =
      (case featured opts of
         None \<Rightarrow> byCategory
       | Some f \<Rightarrow> filter (\<lambda>product. product_isFeatured product = Some f) byCategory)"
    by (cases "featured opts") (simp_all add: byFeatured_def)
  show ?thesis
    unfolding paged or_number_offset(2) [OF off] feat cat
    by (simp add: spec_getProducts_def Let_def)
qed

lemma mem_getProducts_no_options: "mem_getProducts None s = map_values (products s)"
  using js_slice_drop [of 0 "map_values (products s)"]
  by (simp add: mem_getProducts_def or_number_def Let_def)

lemma five_elements:
  assumes "length xs = 5"
  shows "take 2 (drop 1 xs) = [xs ! 1, xs ! 2]"
proof -
  from assms obtain a b c d e where "xs = [a, b, c, d, e]"
    by (auto simp add: numeral_eq_Suc length_Suc_conv)
  then show ?thesis by simp
qed

lemma mem_getProducts_example:
  assumes "length (map_values (products s)) = 5"
  shows "mem_getProducts (Some limit_2_offset_1) s =
    [map_values (products s) ! 1, map_values (products s) ! 2]"
proof -
  have "mem_getProducts (Some limit_2_offset_1) s = take 2 (drop 1 (map_values (products s)))"
    by (subst mem_getProducts_paged) (simp_all add: limit_2_offset_1_def spec_getProducts_def)
  also have "\<dots> = [map_values (products s) ! 1, map_values (products s) ! 2]"
    using assms by (rule five_elements)
  finally show ?thesis .
qed


text \<open>
  A negative offset reaches \<^verbatim>\<open>Array.prototype.slice\<close>, which counts it from the end: on
  five products, \<^verbatim>\<open>{offset: -1}\<close> gives \<^verbatim>\<open>slice(-1, 4)\<close>, the empty sequence.
\<close>

lemma mem_getProducts_negative_offset:
  "mem_getProducts (Some \<lparr> limit = None, offset = Some (- 1), category = None, featured = None \<rparr>)
     five_product_store = []"
  by (simp add: mem_getProducts_def or_number_def js_slice_def clamp_index_def Let_def
      five_product_store_def map_values_def)

text \<open>
  Claim C3, as amended.  For every stored product collection and every options value
  whose offset and limit are absent or not negative, \<^verbatim>\<open>MemStorage.getProducts\<close> applies
  the category filter (when the category is supplied and not the empty string) and the
  featured filter (when supplied), then drops the first \<^verbatim>\<open>offset\<close> elements, then
  keeps at most \<^verbatim>\<open>limit\<close> elements when the limit is supplied and not 0; an absent
  offset drops nothing, and an absent limit or a limit of 0 keeps all remaining
  elements.  On a five-product set with no filters, \<^verbatim>\<open>getProducts({limit: 2, offset: 1})\<close>
  returns exactly the elements at the zero-indexed positions 1 and 2.
\<close>

theorem getProducts_filters_then_pages:
  "(absent_or_nonneg (offset opts) \<and> absent_or_nonneg (limit opts) \<longrightarrow>
      mem_getProducts (Some opts) s =
        spec_getProducts
          (Some (opts\<lparr> limit := (if limit opts = Some 0 then None else limit opts),
                       category := (if category opts = Some '''' then None else category opts) \<rparr>))
          s) \<and>
   mem_getProducts None s = spec_getProducts None s \<and>
   (length (map_values (products s)) = 5 \<longrightarrow>
      mem_getProducts (Some limit_2_offset_1) s =
        [map_values (products s) ! 1, map_values (products s) ! 2])"
  using mem_getProducts_paged [of opts s] mem_getProducts_example [of s]
  by (simp add: mem_getProducts_no_options spec_getProducts_def)

theorem getProducts_filters_then_pages_witness:
  "absent_or_nonneg (offset limit_2_offset_1) \<and> absent_or_nonneg (limit limit_2_offset_1) \<and>
   length (map_values (products five_product_store)) = 5 \<and>
   mem_getProducts (Some limit_2_offset_1) five_product_store = [row_with_id 2, row_with_id 3] \<and>
   mem_getProducts None five_product_store =
     [row_with_id 1, row_with_id 2, row_with_id 3, row_with_id 4, row_with_id 5]"
  using getProducts_filters_then_pages [of limit_2_offset_1 five_product_store]
  by (simp add: limit_2_offset_1_def five_product_store_def map_values_def spec_getProducts_def)

text \<open>
  The claim as stated fails for the options \<^verbatim>\<open>{limit: 0}\<close>: on five stored products
  the code returns all five, where keeping at most \<^verbatim>\<open>limit\<close> elements gives none.
\<close>

theorem getProducts_limit_0_counterexample:
  "length (mem_getProducts (Some limit_0) five_product_store) = 5 \<and>
   spec_getProducts (Some limit_0) five_product_store = []"
  using mem_getProducts_paged [of limit_0 five_product_store]
  by (simp add: limit_0_def five_product_store_def map_values_def spec_getProducts_def)

section \<open>Zero as limit or offset\<close>

lemma mem_getProducts_limit_0:
  "mem_getProducts (Some (opts\<lparr> limit := Some 0 \<rparr>)) s = mem_getProducts (Some (opts\<lparr> limit := None \<rparr>)) s"
  by (simp add: mem_getProducts_def or_number_def Let_def)

lemma mem_getProducts_offset_0:
  "mem_getProducts (Some (opts\<lparr> offset := Some 0 \<rparr>)) s = mem_getProducts (Some (opts\<lparr> offset := None \<rparr>)) s"
  by (simp add: mem_getProducts_def or_number_def Let_def)

lemma mem_getArticles_limit_0:
  "mem_getArticles (Some (opts\<lparr> limit := Some 0 \<rparr>)) s = mem_getArticles (Some (opts\<lparr> limit := None \<rparr>)) s"
  by (simp add: mem_getArticles_def or_number_def Let_def)

lemma mem_getArticles_offset_0:
  "mem_getArticles (Some (opts\<lparr> offset := Some 0 \<rparr>)) s = mem_getArticles (Some (opts\<lparr> offset := None \<rparr>)) s"
  by (simp add: mem_getArticles_def or_number_def Let_def)

lemma db_getProducts_limit_0:
  "db_getProducts scan (Some (opts\<lparr> limit := Some 0 \<rparr>)) db = db_getProducts scan (Some (opts\<lparr> limit := None \<rparr>)) db"
  by (simp add: db_getProducts_def limit_of_def offset_of_def Let_def)

lemma db_getProducts_offset_0:
  "db_getProducts scan (Some (opts\<lparr> offset := Some 0 \<rparr>)) db = db_getProducts scan (Some (opts\<lparr> offset := None \<rparr>)) db"
  by (simp add: db_getProducts_def limit_of_def offset_of_def Let_def)

lemma db_getArticles_limit_0:
  "db_getArticles scan (Some (opts\<lparr> limit := Some 0 \<rparr>)) db = db_getArticles scan (Some (opts\<lparr> limit := None \<rparr>)) db"
  by (simp add: db_getArticles_def limit_of_def offset_of_def Let_def)

lemma db_getArticles_offset_0:
  "db_getArticles scan (Some (opts\<lparr> offset := Some 0 \<rparr>)) db = db_getArticles scan (Some (opts\<lparr> offset := None \<rparr>)) db"
  by (simp add: db_getArticles_def limit_of_def offset_of_def Let_def)

lemma mem_getArticles_no_options: "mem_getArticles None s = map_values (articles s)"
  using js_slice_drop [of 0 "map_values (articles s)"]
  by (simp add: mem_getArticles_def or_number_def Let_def)

lemma mem_getProducts_only_limit_0: "mem_getProducts (Some limit_0) s = map_values (products s)"
  using js_slice_drop [of 0 "map_values (products s)"]
  by (simp add: mem_getProducts_def or_number_def Let_def limit_0_def)

lemma mem_getArticles_only_limit_0:
  "mem_getArticles (Some \<lparr> limit = Some 0, offset = None, category = None \<rparr>) s = map_values (articles s)"
  using js_slice_drop [of 0 "map_values (articles s)"]
  by (simp add: mem_getArticles_def or_number_def Let_def)

lemma row_with_id_fields:
  "product_createdAt (row_with_id k) = Some 1700000000000"
  "product_category (row_with_id k) = ''swimwear''"
  by (simp_all add: row_with_id_def product_row_def mem_createProduct_def Let_def product1_def)

text \<open>
  Claim C8.  In \<^verbatim>\<open>MemStorage\<close> a limit of 0 and an offset of 0 are treated exactly like
  an absent option by \<^verbatim>\<open>getProducts\<close> and \<^verbatim>\<open>getArticles\<close>, so that \<^verbatim>\<open>{limit: 0}\<close> returns
  all elements and not the empty sequence; in \<^verbatim>\<open>DatabaseStorage\<close> a limit of 0 and an
  offset of 0 are not applied to the query, which returns what the query without them
  returns.  The two backends agree in treating 0 as absent.
\<close>

theorem zero_limit_or_offset_is_absent:
  "mem_getProducts (Some (popts\<lparr> limit := Some 0 \<rparr>)) s =
     mem_getProducts (Some (popts\<lparr> limit := None \<rparr>)) s \<and>
   mem_getProducts (Some (popts\<lparr> offset := Some 0 \<rparr>)) s =
     mem_getProducts (Some (popts\<lparr> offset := None \<rparr>)) s \<and>
   mem_getArticles (Some (aopts\<lparr> limit := Some 0 \<rparr>)) s =
     mem_getArticles (Some (aopts\<lparr> limit := None \<rparr>)) s \<and>
   mem_getArticles (Some (aopts\<lparr> offset := Some 0 \<rparr>)) s =
     mem_getArticles (Some (aopts\<lparr> offset := None \<rparr>)) s \<and>
   mem_getProducts (Some limit_0) s = map_values (products s) \<and>
   mem_getArticles (Some \<lparr> limit = Some 0, offset = None, category = None \<rparr>) s =
     map_values (articles s) \<and>
   db_getProducts pscan (Some (popts\<lparr> limit := Some 0 \<rparr>)) db =
     db_getProducts pscan (Some (popts\<lparr> limit := None \<rparr>)) db \<and>
   db_getProducts pscan (Some (popts\<lparr> offset := Some 0 \<rparr>)) db =
     db_getProducts pscan (Some (popts\<lparr> offset := None \<rparr>)) db \<and>
   db_getArticles ascan (Some (aopts\<lparr> limit := Some 0 \<rparr>)) db =
     db_getArticles ascan (Some (aopts\<lparr> limit := None \<rparr>)) db \<and>
   db_getArticles ascan (Some (aopts\<lparr> offset := Some 0 \<rparr>)) db =
     db_getArticles ascan (Some (aopts\<lparr> offset := None \<rparr>)) db"
  by (intro conjI)
    (fact mem_getProducts_limit_0 mem_getProducts_offset_0 mem_getArticles_limit_0
      mem_getArticles_offset_0 mem_getProducts_only_limit_0 mem_getArticles_only_limit_0
      db_getProducts_limit_0 db_getProducts_offset_0 db_getArticles_limit_0
      db_getArticles_offset_0)+

lemma five_row_database_products:
  "db_getProducts (\<lambda>q rows. rows) (Some (limit_0\<lparr> limit := None \<rparr>)) five_row_database =
     Inr [row_with_id 1, row_with_id 2, row_with_id 3, row_with_id 4, row_with_id 5]"
  by (simp add: limit_0_def five_row_database_def empty_database_def
      db_getProducts_def run_select_def limit_of_def offset_of_def category_of_def stable_sort_def row_with_id_fields)

theorem zero_limit_or_offset_is_absent_witness:
  "mem_getProducts (Some limit_0) five_product_store =
     [row_with_id 1, row_with_id 2, row_with_id 3, row_with_id 4, row_with_id 5] \<and>
   db_getProducts (\<lambda>q rows. rows) (Some limit_0) five_row_database =
     Inr [row_with_id 1, row_with_id 2, row_with_id 3, row_with_id 4, row_with_id 5] \<and>
   db_getProducts (\<lambda>q rows. rows) (Some (limit_0\<lparr> limit := None \<rparr>)) five_row_database =
     Inr [row_with_id 1, row_with_id 2, row_with_id 3, row_with_id 4, row_with_id 5]"
proof -
  note claim = zero_limit_or_offset_is_absent
    [where popts = limit_0 and s = five_product_store and db = five_row_database
      and aopts = "\<lparr> limit = None, offset = None, category = None \<rparr>"
      and pscan = "\<lambda>q rows. rows" and ascan = "\<lambda>q rows. rows"]
  have same: "limit_0\<lparr> limit := Some 0 \<rparr> = limit_0"
    by (simp add: limit_0_def)
  from claim have "mem_getProducts (Some limit_0) five_product_store =
      map_values (products five_product_store)"
    by blast
  moreover from claim have "db_getProducts (\<lambda>q rows. rows) (Some limit_0) five_row_database =
      db_getProducts (\<lambda>q rows. rows) (Some (limit_0\<lparr> limit := None \<rparr>)) five_row_database"
    unfolding same by blast
  ultimately show ?thesis
    by (simp add: five_row_database_products five_product_store_def map_values_def)
qed

section \<open>The empty string as category\<close>

lemma mem_getProducts_category_empty:
  "mem_getProducts (Some (opts\<lparr> category := Some '''' \<rparr>)) s = mem_getProducts (Some (opts\<lparr> category := None \<rparr>)) s"
  by (simp add: mem_getProducts_def Let_def)

lemma mem_getArticles_category_empty:
  "mem_getArticles (Some (opts\<lparr> category := Some '''' \<rparr>)) s = mem_getArticles (Some (opts\<lparr> category := None \<rparr>)) s"
  by (simp add: mem_getArticles_def Let_def)

lemma mem_getSettings_category_empty:
  "mem_getSettings localeCompare (Some '''') s = mem_getSettings localeCompare None s"
  by (simp add: mem_getSettings_def Let_def)

lemma db_getProducts_category_empty:
  "db_getProducts scan (Some (opts\<lparr> category := Some '''' \<rparr>)) db = db_getProducts scan (Some (opts\<lparr> category := None \<rparr>)) db"
  by (simp add: db_getProducts_def category_of_def Let_def)

lemma db_getArticles_category_empty:
  "db_getArticles scan (Some (opts\<lparr> category := Some '''' \<rparr>)) db = db_getArticles scan (Some (opts\<lparr> category := None \<rparr>)) db"
  by (simp add: db_getArticles_def category_of_def Let_def)

lemma db_getSettings_category_empty:
  "db_getSettings collate scan (Some '''') db = db_getSettings collate scan None db"
  by (simp add: db_getSettings_def category_of_def Let_def)

text \<open>
  Claim C9.  In both backends the empty string as category imposes no filter:
  \<^verbatim>\<open>getProducts({category: ""})\<close>, \<^verbatim>\<open>getArticles({category: ""})\<close> and \<^verbatim>\<open>getSettings("")\<close>
  return what the call with no category returns, not the entities whose category is
  the empty string.
\<close>

theorem empty_category_is_no_filter:
  "mem_getProducts (Some (popts\<lparr> category := Some '''' \<rparr>)) s =
     mem_getProducts (Some (popts\<lparr> category := None \<rparr>)) s \<and>
   mem_getArticles (Some (aopts\<lparr> category := Some '''' \<rparr>)) s =
     mem_getArticles (Some (aopts\<lparr> category := None \<rparr>)) s \<and>
   mem_getSettings localeCompare (Some '''') s = mem_getSettings localeCompare None s \<and>
   db_getProducts pscan (Some (popts\<lparr> category := Some '''' \<rparr>)) db =
     db_getProducts pscan (Some (popts\<lparr> category := None \<rparr>)) db \<and>
   db_getArticles ascan (Some (aopts\<lparr> category := Some '''' \<rparr>)) db =
     db_getArticles ascan (Some (aopts\<lparr> category := None \<rparr>)) db \<and>
   db_getSettings collate sscan (Some '''') db = db_getSettings collate sscan None db"
  by (intro conjI)
    (fact mem_getProducts_category_empty mem_getArticles_category_empty
      mem_getSettings_category_empty db_getProducts_category_empty
      db_getArticles_category_empty db_getSettings_category_empty)+

lemma five_row_database_products_no_category:
  "db_getProducts (\<lambda>q rows. rows) (Some (category_empty\<lparr> category := None \<rparr>)) five_row_database =
     Inr [row_with_id 1, row_with_id 2, row_with_id 3, row_with_id 4, row_with_id 5]"
  by (simp add: category_empty_def five_row_database_def empty_database_def
      db_getProducts_def run_select_def limit_of_def offset_of_def category_of_def stable_sort_def row_with_id_fields)

lemma five_product_store_no_category:
  "mem_getProducts (Some (category_empty\<lparr> category := None \<rparr>)) five_product_store =
     [row_with_id 1, row_with_id 2, row_with_id 3, row_with_id 4, row_with_id 5]"
  by (simp add: category_empty_def five_product_store_def map_values_def
      mem_getProducts_def or_number_def js_slice_def clamp_index_def)

theorem empty_category_is_no_filter_witness:
  "product_category (row_with_id 1) = ''swimwear'' \<and>
   mem_getProducts (Some category_empty) five_product_store =
     [row_with_id 1, row_with_id 2, row_with_id 3, row_with_id 4, row_with_id 5] \<and>
   db_getProducts (\<lambda>q rows. rows) (Some category_empty) five_row_database =
     Inr [row_with_id 1, row_with_id 2, row_with_id 3, row_with_id 4, row_with_id 5]"
proof -
  note claim = empty_category_is_no_filter
    [where popts = category_empty and s = five_product_store and db = five_row_database
      and aopts = "\<lparr> limit = None, offset = None, category = None \<rparr>"
      and localeCompare = "\<lambda>a b. 0" and collate = "\<lambda>a b. 0"
      and pscan = "\<lambda>q rows. rows" and ascan = "\<lambda>q rows. rows"
      and sscan = "\<lambda>q rows. rows"]
  have same: "category_empty\<lparr> category := Some '''' \<rparr> = category_empty"
    by (simp add: category_empty_def)
  from claim have "mem_getProducts (Some category_empty) five_product_store =
      mem_getProducts (Some (category_empty\<lparr> category := None \<rparr>)) five_product_store"
    unfolding same by blast
  moreover from claim have "db_getProducts (\<lambda>q rows. rows) (Some category_empty) five_row_database =
      db_getProducts (\<lambda>q rows. rows) (Some (category_empty\<lparr> category := None \<rparr>)) five_row_database"
    unfolding same by blast
  ultimately show ?thesis
    by (simp add: five_row_database_products_no_category five_product_store_no_category
        row_with_id_fields)
qed

section \<open>Updating a setting\<close>

lemma mem_updateSetting_refreshes:
  assumes "map_get (settings s) i = Some setting"
  shows "\<exists>updated. fst (mem_updateSetting t i settingData s) = Some updated \<and>
    settings_updatedAt updated = Some t"
  using assms by (simp add: mem_updateSetting_def Let_def)

lemma spread_settings_updatedAt:
  "partialSettings_updatedAt setting = None \<Longrightarrow>
   settings_updatedAt (spread_settings row setting) = settings_updatedAt row"
  by (simp add: spread_settings_def)

lemma db_updateSetting_updatedAt:
  assumes "db_updateSetting i setting db = Inr (Some updated, db')"
    and absent: "partialSettings_updatedAt setting = None"
  shows "\<exists>row \<in> set (settings_table db). settings_id row = i \<and>
    settings_updatedAt updated = settings_updatedAt row"
proof -
  from assms(1) have "\<not> no_values setting" and "\<not> id_taken i setting db"
    by (auto simp add: db_updateSetting_def split: if_splits)
  with assms(1) obtain rows where
    rows: "map (\<lambda>row. spread_settings row setting)
        (filter (\<lambda>row. settings_id row = i) (settings_table db)) = updated # rows"
    by (auto simp add: db_updateSetting_def Let_def split: list.splits)
  then have "updated \<in> set (map (\<lambda>row. spread_settings row setting)
        (filter (\<lambda>row. settings_id row = i) (settings_table db)))"
    by simp
  with absent show ?thesis
    by (auto simp add: spread_settings_updatedAt)
qed

lemma setting_row_updatedAt: "settings_updatedAt setting_row = Some 1700000000001"
  by (simp add: setting_row_def mem_createSetting_def Let_def)

text \<open>
  Claim C2.  \<^verbatim>\<open>updateSetting\<close> is to return a setting whose \<^verbatim>\<open>updatedAt\<close> is the time of
  the update, in both backends.  \<^verbatim>\<open>MemStorage.updateSetting\<close> does so
  (\<open>mem_updateSetting_refreshes\<close>).  \<^verbatim>\<open>DatabaseStorage.updateSetting\<close> sets only the
  columns of the payload and, for a payload of the declared type, which has no
  \<^verbatim>\<open>updatedAt\<close>, returns the row with the \<^verbatim>\<open>updatedAt\<close> it had
  (\<open>db_updateSetting_updatedAt\<close>): on the row created at
  1700000000001, an update of the value returns that time, whenever it is made,
  where the in-memory backend called at 1800000000000 returns 1800000000000.
\<close>

theorem db_updateSetting_keeps_updatedAt:
  "settings_updatedAt setting_row = Some 1700000000001 \<and>
   db_updateSetting 1 new_value one_row_database =
     Inr (Some (setting_row\<lparr> settings_value := Some ''kharidify store'' \<rparr>),
          one_row_database
            \<lparr> settings_table := [setting_row\<lparr> settings_value := Some ''kharidify store'' \<rparr>] \<rparr>) \<and>
   fst (mem_updateSetting 1800000000000 1 new_value one_setting_store) =
     Some (setting_row\<lparr> settings_value := Some ''kharidify store'',
                        settings_updatedAt := Some 1800000000000 \<rparr>)"
  by (simp add: setting_row_updatedAt db_updateSetting_def no_values_def id_taken_def new_value_def
      one_row_database_def empty_database_def setting_row_id spread_settings_def Let_def
      mem_updateSetting_def one_setting_store_def empty_storage_def map_get_def)

section \<open>The invariant of the in-memory backend\<close>

lemma update_fresh: "k \<notin> fst ` set al \<Longrightarrow> AList.update k v al = al @ [(k, v)]"
  by (induction al) auto

lemma update_present_keys: "k \<in> fst ` set al \<Longrightarrow> map fst (AList.update k v al) = map fst al"
  by (simp add: update_keys)

lemma update_entries: "(j, e) \<in> set (AList.update k v al) \<Longrightarrow> (j, e) \<in> set al \<or> (j = k \<and> e = v)"
  by (induction al) (auto split: if_splits)

lemma js_increment_bounds: "n \<le> js_increment n" "n < counter_limit \<Longrightarrow> js_increment n = n + 1"
  "\<not> n < counter_limit \<Longrightarrow> js_increment n = n"
  by (simp_all add: js_increment_def)

lemma js_increment_numeral:
  "js_increment 1 = 2"
  "js_increment (numeral k) =
     (if (numeral k :: int) < 9007199254740992 then numeral k + 1 else numeral k)"
  by (simp_all add: js_increment_def counter_limit_def)

lemma ids_ok_empty: "ids_ok ident [] c"
  by (simp add: ids_ok_def)

lemma ids_ok_fresh: "ids_ok ident m c \<Longrightarrow> c < counter_limit \<Longrightarrow> c \<notin> fst ` set m"
  by (auto simp add: ids_ok_def)

text \<open>
  A creation stores the entity under the counter.  While the counter is below its
  limit the key is new and the entry is appended; at the limit the key may be present,
  and the entry then replaces the one stored under it.
\<close>

lemma ids_ok_create:
  assumes ok: "ids_ok ident m c" and e: "ident e = c"
  shows "ids_ok ident (map_set m c e) (js_increment c)"
proof (cases "c \<in> fst ` set m")
  case True
  with ok have limit: "\<not> c < counter_limit"
    by (auto simp add: ids_ok_def)
  from True have keys: "map fst (map_set m c e) = map fst m"
    by (simp add: map_set_def update_present_keys)
  have "\<forall>(k, x) \<in> set (map_set m c e). ident x = k \<and> k \<le> c"
    using ok e by (auto simp add: ids_ok_def map_set_def dest!: update_entries)
  with ok keys limit show ?thesis
    by (auto simp add: ids_ok_def js_increment_bounds)
next
  case False
  then have appended: "map_set m c e = m @ [(c, e)]"
    by (simp add: map_set_def update_fresh)
  have below: "\<forall>(k, x) \<in> set m. k < c"
  proof (clarify)
    fix k x assume mem: "(k, x) \<in> set m"
    with ok have "k \<le> c" by (auto simp add: ids_ok_def)
    moreover from mem False have "k \<noteq> c" by force
    ultimately show "k < c" by simp
  qed
  from js_increment_bounds(1) [of c] have "c \<le> js_increment c" .
  moreover have "js_increment c < counter_limit \<longrightarrow> c < js_increment c"
    by (simp add: js_increment_def)
  ultimately show ?thesis
    using ok e below unfolding appended
    by (fastforce simp add: ids_ok_def sorted_wrt_append)
qed

lemma ids_ok_update:
  assumes ok: "ids_ok ident m c" and stored: "map_get m k = Some e" and same: "ident e' = ident e"
  shows "ids_ok ident (map_set m k e') c"
proof -
  from stored have mem: "(k, e) \<in> set m"
    by (simp add: map_get_def map_of_SomeD)
  then have "k \<in> fst ` set m" by force
  then have keys: "map fst (map_set m k e') = map fst m"
    by (simp add: map_set_def update_present_keys)
  from ok mem have "ident e = k" by (auto simp add: ids_ok_def)
  with same have "ident e' = k" by simp
  moreover from ok mem have "k \<le> c \<and> (c < counter_limit \<longrightarrow> k < c)"
    by (auto simp add: ids_ok_def)
  ultimately have "\<forall>(j, x) \<in> set (map_set m k e').
      ident x = j \<and> j \<le> c \<and> (c < counter_limit \<longrightarrow> j < c)"
    using ok by (auto simp add: ids_ok_def map_set_def dest!: update_entries)
  with ok keys show ?thesis by (simp add: ids_ok_def)
qed

lemma ids_ok_delete:
  assumes "ids_ok ident m c"
  shows "ids_ok ident (map_delete m k) c"
proof -
  have "set (AList.delete k m) \<subseteq> set m" by (auto simp add: AList.delete_eq)
  moreover have "sorted_wrt (<) (map fst (AList.delete k m))"
    using assms by (simp add: ids_ok_def AList.delete_eq sorted_wrt_map sorted_wrt_filter)
  ultimately show ?thesis using assms by (auto simp add: ids_ok_def map_delete_def)
qed

lemma invariant_empty: "invariant empty_storage"
  by (simp add: invariant_def empty_storage_def ids_ok_empty)

lemma invariant_createUser: "invariant s \<Longrightarrow> invariant (snd (mem_createUser t u s))"
  by (simp add: invariant_def mem_createUser_def Let_def ids_ok_create)

lemma invariant_createProduct: "invariant s \<Longrightarrow> invariant (snd (mem_createProduct t p s))"
  by (simp add: invariant_def mem_createProduct_def Let_def ids_ok_create)

lemma spread_product_id:
  "partialProduct_id p = None \<Longrightarrow> product_id (spread_product e p) = product_id e"
  by (simp add: spread_product_def)

lemma invariant_updateProduct:
  "invariant s \<Longrightarrow> partialProduct_id p = None \<Longrightarrow> invariant (snd (mem_updateProduct i p s))"
  by (auto simp add: invariant_def mem_updateProduct_def Let_def spread_product_id
      intro: ids_ok_update split: option.splits)

lemma invariant_deleteProduct: "invariant s \<Longrightarrow> invariant (snd (mem_deleteProduct i s))"
  by (simp add: invariant_def mem_deleteProduct_def Let_def ids_ok_delete)

lemma invariant_createCategory: "invariant s \<Longrightarrow> invariant (snd (mem_createCategory c s))"
  by (simp add: invariant_def mem_createCategory_def Let_def ids_ok_create)

lemma invariant_createArticle: "invariant s \<Longrightarrow> invariant (snd (mem_createArticle t a s))"
  by (simp add: invariant_def mem_createArticle_def Let_def ids_ok_create)

lemma invariant_createOrder: "invariant s \<Longrightarrow> invariant (snd (mem_createOrder t ord s))"
  by (simp add: invariant_def mem_createOrder_def Let_def ids_ok_create)

lemma invariant_updateOrderStatus:
  "invariant s \<Longrightarrow> invariant (snd (mem_updateOrderStatus i status s))"
  by (auto simp add: invariant_def mem_updateOrderStatus_def Let_def
      intro: ids_ok_update split: option.splits)

lemma invariant_createOrderItem: "invariant s \<Longrightarrow> invariant (snd (mem_createOrderItem it s))"
  by (simp add: invariant_def mem_createOrderItem_def Let_def ids_ok_create)

lemma invariant_createSubscriber: "invariant s \<Longrightarrow> invariant (snd (mem_createSubscriber t sub s))"
  by (simp add: invariant_def mem_createSubscriber_def Let_def ids_ok_create)

lemma invariant_createContact: "invariant s \<Longrightarrow> invariant (snd (mem_createContact t c s))"
  by (simp add: invariant_def mem_createContact_def Let_def ids_ok_create)

lemma invariant_createSetting: "invariant s \<Longrightarrow> invariant (snd (mem_createSetting t t' st s))"
  by (simp add: invariant_def mem_createSetting_def Let_def ids_ok_create)

lemma spread_settings_id:
  "partialSettings_id p = None \<Longrightarrow> settings_id (spread_settings e p) = settings_id e"
  by (simp add: spread_settings_def)

lemma invariant_updateSetting:
  "invariant s \<Longrightarrow> partialSettings_id st = None \<Longrightarrow>
   invariant (snd (mem_updateSetting t i st s))"
  by (auto simp add: invariant_def mem_updateSetting_def Let_def spread_settings_id
      intro: ids_ok_update split: option.splits)

lemma invariant_deleteSetting: "invariant s \<Longrightarrow> invariant (snd (mem_deleteSetting i s))"
  by (simp add: invariant_def mem_deleteSetting_def Let_def ids_ok_delete)

lemma invariant_exec: "invariant s \<Longrightarrow> well_typed c \<Longrightarrow> invariant (exec c s)"
  by (cases c)
    (simp_all add: invariant_createUser invariant_createProduct invariant_updateProduct
      invariant_deleteProduct invariant_createCategory invariant_createArticle
      invariant_createOrder invariant_updateOrderStatus invariant_createOrderItem
      invariant_createSubscriber invariant_createContact invariant_createSetting
      invariant_updateSetting invariant_deleteSetting)

lemma invariant_seed_categories:
  "invariant s \<Longrightarrow> invariant (fold (\<lambda>c s. snd (mem_createCategory c s)) cs s)"
  by (induction cs arbitrary: s) (simp_all add: invariant_createCategory)

lemma invariant_seed_products:
  "invariant s \<Longrightarrow> invariant (fold (\<lambda>(k, p) s. snd (mem_createProduct (clock k) p s)) kps s)"
  by (induction kps arbitrary: s) (auto simp add: invariant_createProduct)

lemma invariant_seed_articles:
  "invariant s \<Longrightarrow> invariant (fold (\<lambda>(k, a) s. snd (mem_createArticle (clock k) a s)) kas s)"
  by (induction kas arbitrary: s) (auto simp add: invariant_createArticle)

lemma invariant_new: "invariant (new_MemStorage clock)"
  unfolding new_MemStorage_def initializeData_def Let_def
  by (intro invariant_seed_articles invariant_seed_products invariant_seed_categories
      invariant_empty)

lemma reachable_invariant: "reachable s \<Longrightarrow> invariant s"
  by (induction rule: reachable.induct) (simp_all add: invariant_new invariant_exec)

section \<open>Identifiers\<close>

lemma stored_ids_ok:
  "invariant s \<Longrightarrow> (k, i) \<in> set (stored_ids kind s) \<Longrightarrow>
   i = k \<and> k \<le> counter kind s \<and> (counter kind s < counter_limit \<longrightarrow> k < counter kind s)"
  by (cases kind) (auto simp add: invariant_def ids_ok_def)

lemma minted_counter:
  "minted c s = Some (kind, i) \<Longrightarrow>
   i = counter kind s \<and> counter kind (exec c s) = js_increment i"
  by (cases c)
    (auto simp add: mem_createUser_def mem_createProduct_def mem_createCategory_def
      mem_createArticle_def mem_createOrder_def mem_createOrderItem_def
      mem_createSubscriber_def mem_createContact_def mem_createSetting_def Let_def)

lemma counter_mono: "counter kind s \<le> counter kind (exec c s)"
  by (cases c; cases kind)
    (simp_all add: mem_createUser_def mem_createProduct_def mem_createCategory_def
      mem_createArticle_def mem_createOrder_def mem_createOrderItem_def
      mem_createSubscriber_def mem_createContact_def mem_createSetting_def
      mem_updateProduct_def mem_deleteProduct_def mem_updateOrderStatus_def
      mem_updateSetting_def mem_deleteSetting_def Let_def js_increment_def
      split: option.splits)

lemma minted_ids_lower: "i \<in> set (minted_ids kind cs s) \<Longrightarrow> counter kind s \<le> i"
proof (induction cs arbitrary: s)
  case Nil
  then show ?case by simp
next
  case (Cons c cs)
  from Cons.prems consider
    (head) kind' where "minted c s = Some (kind', i)" "kind' = kind"
    | (tail) "i \<in> set (minted_ids kind cs (exec c s))"
    by (auto split: option.splits if_splits)
  then show ?case
  proof cases
    case head
    then show ?thesis using minted_counter [of c s kind i] by simp
  next
    case tail
    then have "counter kind (exec c s) \<le> i" by (rule Cons.IH)
    with counter_mono [of kind s c] show ?thesis by simp
  qed
qed

text \<open>
  Among the ids that a sequence of calls mints, those below the limit of the counter
  are pairwise distinct.
\<close>

lemma minted_ids_distinct:
  "distinct (filter (\<lambda>i. i < counter_limit) (minted_ids kind cs s))"
proof (induction cs arbitrary: s)
  case Nil
  then show ?case by simp
next
  case (Cons c cs)
  show ?case
  proof (cases "minted c s")
    case None
    with Cons.IH show ?thesis by simp
  next
    case (Some m)
    obtain kind' i where m: "m = (kind', i)" by (cases m)
    show ?thesis
    proof (cases "kind' = kind \<and> i < counter_limit")
      case True
      with Some m have "counter kind (exec c s) = i + 1"
        using minted_counter [of c s kind i] by (simp add: js_increment_def)
      then have "i \<notin> set (minted_ids kind cs (exec c s))"
        using minted_ids_lower [of i kind cs "exec c s"] by auto
      with Some m True Cons.IH show ?thesis by simp
    next
      case False
      with Some m Cons.IH show ?thesis by auto
    qed
  qed
qed

lemma minted_ids_fresh:
  assumes "invariant s" and "i \<in> set (minted_ids kind cs s)" and "i < counter_limit"
  shows "i \<notin> fst ` set (stored_ids kind s)"
proof
  assume "i \<in> fst ` set (stored_ids kind s)"
  then obtain j where mem: "(i, j) \<in> set (stored_ids kind s)" by auto
  from minted_ids_lower [OF assms(2)] assms(3) have "counter kind s < counter_limit" by simp
  with stored_ids_ok [OF assms(1) mem] have "i < counter kind s" by simp
  with minted_ids_lower [OF assms(2)] show False by simp
qed

lemma new_MemStorage_counters:
  "productId (new_MemStorage clock) = 12"
  "categoryId (new_MemStorage clock) = 7"
  "articleId (new_MemStorage clock) = 4"
  by (simp_all add: new_MemStorage_def initializeData_def Let_def empty_storage_def
      mem_createCategory_def mem_createProduct_def mem_createArticle_def js_increment_numeral)

lemma new_MemStorage_product_keys:
  "map fst (products (new_MemStorage clock)) = [1, 2, 3, 4, 5, 6, 7, 8, 9, 10, 11]"
  by (simp add: new_MemStorage_def initializeData_def Let_def empty_storage_def
      mem_createCategory_def mem_createProduct_def mem_createArticle_def map_set_def
      js_increment_numeral)

lemma new_MemStorage_product_ids:
  "map (\<lambda>(k, e). product_id e) (products (new_MemStorage clock)) =
     [1, 2, 3, 4, 5, 6, 7, 8, 9, 10, 11]"
  by (simp add: new_MemStorage_def initializeData_def Let_def empty_storage_def
      mem_createCategory_def mem_createProduct_def mem_createArticle_def map_set_def
      js_increment_numeral)

text \<open>The counter of the products wears out: a round of \<open>mint_and_drop\<close> moves it on by one
  until it has reached the limit, and no further.\<close>

lemma mint_and_drop_productId: "productId (mint_and_drop s) = js_increment (productId s)"
  by (simp add: mint_and_drop_def mem_createProduct_def mem_deleteProduct_def Let_def)

lemma mint_and_drop_reachable: "reachable s \<Longrightarrow> reachable (mint_and_drop s)"
  unfolding mint_and_drop_def by (intro reachable.called) simp_all

lemma rounds_reachable: "reachable s \<Longrightarrow> reachable ((mint_and_drop ^^ n) s)"
  by (induction n) (simp_all add: mint_and_drop_reachable)

lemma rounds_productId:
  "productId s \<le> counter_limit \<Longrightarrow>
   productId ((mint_and_drop ^^ n) s) = min (productId s + int n) counter_limit"
  by (induction n) (auto simp add: mint_and_drop_productId js_increment_def)

lemma worn_out_reachable: "reachable worn_out"
  unfolding worn_out_def seeded_def by (intro rounds_reachable reachable.constructed)

lemma worn_out_productId: "productId worn_out = counter_limit"
proof -
  have "productId seeded \<le> counter_limit"
    by (simp add: seeded_def new_MemStorage_counters counter_limit_def)
  then have "productId worn_out =
      min (productId seeded + int 9007199254740980) counter_limit"
    unfolding worn_out_def by (rule rounds_productId)
  then show ?thesis by (simp add: seeded_def new_MemStorage_counters counter_limit_def)
qed

text \<open>What the mapping of the products holds under a key, as an entry of \<open>stored_ids\<close>.\<close>

lemma stored_product:
  "map_get (products s) k = Some e \<Longrightarrow> (k, product_id e) \<in> set (stored_ids ProductKind s)"
  by (force simp add: map_get_def dest: map_of_SomeD)

lemma seeded_product_1: "\<exists>e. map_get (products seeded) 1 = Some e \<and> product_id e = 1"
proof -
  have "(1::int) \<in> set (map fst (products seeded))"
    by (simp add: seeded_def new_MemStorage_product_keys)
  then have "map_of (products seeded) 1 \<noteq> None"
    by (simp add: map_of_eq_None_iff)
  then obtain e where e: "map_get (products seeded) 1 = Some e"
    by (auto simp add: map_get_def)
  then have "(1, product_id e) \<in> set (stored_ids ProductKind seeded)"
    by (rule stored_product)
  moreover have "invariant seeded"
    unfolding seeded_def by (rule invariant_new)
  ultimately have "product_id e = 1"
    using stored_ids_ok by blast
  with e show ?thesis by simp
qed

lemma updateProduct_only_id:
  assumes "map_get (products s) k = Some e"
  shows "map_get (products (exec (UpdateProduct k (only_id j)) s)) k =
    Some (spread_product e (only_id j))"
    and "product_id (spread_product e (only_id j)) = j"
    and "productId (exec (UpdateProduct k (only_id j)) s) = productId s"
  using assms
  by (simp_all add: mem_updateProduct_def Let_def map_get_set spread_product_def only_id_def)

lemma createProduct_stored:
  "map_get (products (exec (CreateProduct t p) s)) (productId s) =
     Some (fst (mem_createProduct t p s))"
  "product_id (fst (mem_createProduct t p s)) = productId s"
  "productId (exec (CreateProduct t p) s) = js_increment (productId s)"
  by (simp_all add: mem_createProduct_def Let_def map_get_set)

text \<open>
  Claim C7, as amended.  In every state of \<^verbatim>\<open>MemStorage\<close> reachable from the constructor
  by calls of the interface whose payloads are of their declared types, for every
  entity kind: every stored entity carries its key as id, and every key is at most
  the kind's counter, and below it while the counter is below \<^verbatim>\<open>2^53\<close>; the id a creation
  mints is the counter, and it is the id of no stored entity when it is below \<^verbatim>\<open>2^53\<close>;
  the ids below \<^verbatim>\<open>2^53\<close> minted by any further sequence of calls, deletions among them,
  are pairwise distinct and differ from every id stored now; and a call whose payload
  is of its declared type leaves the id of an entity that stays stored as it was.
\<close>

theorem ids_below_counter_and_never_reused:
  assumes "reachable s"
  shows "(\<forall>(k, i) \<in> set (stored_ids kind s).
       i = k \<and> k \<le> counter kind s \<and> (counter kind s < counter_limit \<longrightarrow> k < counter kind s)) \<and>
    (\<forall>c i. minted c s = Some (kind, i) \<longrightarrow>
       i = counter kind s \<and> (i < counter_limit \<longrightarrow> i \<notin> fst ` set (stored_ids kind s))) \<and>
    distinct (filter (\<lambda>i. i < counter_limit) (minted_ids kind cs s)) \<and>
    (\<forall>i \<in> set (minted_ids kind cs s).
       i < counter_limit \<longrightarrow> i \<notin> fst ` set (stored_ids kind s)) \<and>
    (well_typed c \<longrightarrow>
       (\<forall>(k, i) \<in> set (stored_ids kind s). \<forall>(k', i') \<in> set (stored_ids kind (exec c s)).
          k' = k \<longrightarrow> i' = i))"
proof -
  from assms have inv: "invariant s" by (rule reachable_invariant)
  have stored: "\<forall>(k, i) \<in> set (stored_ids kind s).
      i = k \<and> k \<le> counter kind s \<and> (counter kind s < counter_limit \<longrightarrow> k < counter kind s)"
    using stored_ids_ok [OF inv] by blast
  have fresh: "\<forall>c i. minted c s = Some (kind, i) \<longrightarrow>
      i = counter kind s \<and> (i < counter_limit \<longrightarrow> i \<notin> fst ` set (stored_ids kind s))"
  proof (intro allI impI conjI)
    fix c i assume m: "minted c s = Some (kind, i)"
    from minted_counter [OF m] show "i = counter kind s" by simp
    assume "i < counter_limit"
    moreover from m have "i \<in> set (minted_ids kind [c] s)" by simp
    ultimately show "i \<notin> fst ` set (stored_ids kind s)"
      using minted_ids_fresh [OF inv] by blast
  qed
  have later: "\<forall>i \<in> set (minted_ids kind cs s).
      i < counter_limit \<longrightarrow> i \<notin> fst ` set (stored_ids kind s)"
    using minted_ids_fresh [OF inv] by blast
  have kept: "well_typed c \<longrightarrow>
      (\<forall>(k, i) \<in> set (stored_ids kind s). \<forall>(k', i') \<in> set (stored_ids kind (exec c s)).
         k' = k \<longrightarrow> i' = i)"
  proof
    assume "well_typed c"
    with inv have inv': "invariant (exec c s)" by (rule invariant_exec)
    show "\<forall>(k, i) \<in> set (stored_ids kind s). \<forall>(k', i') \<in> set (stored_ids kind (exec c s)).
         k' = k \<longrightarrow> i' = i"
      using stored_ids_ok [OF inv] stored_ids_ok [OF inv'] by blast
  qed
  show ?thesis
    by (intro conjI) (fact stored fresh minted_ids_distinct later kept)+
qed

theorem ids_below_counter_and_never_reused_witness:
  "reachable seeded \<and>
   counter ProductKind seeded = 12 \<and>
   map fst (stored_ids ProductKind seeded) = [1, 2, 3, 4, 5, 6, 7, 8, 9, 10, 11] \<and>
   map snd (stored_ids ProductKind seeded) = [1, 2, 3, 4, 5, 6, 7, 8, 9, 10, 11] \<and>
   well_typed (DeleteProduct 12) \<and>
   minted_ids ProductKind
     [CreateProduct 1700000000001 product1, DeleteProduct 12, CreateProduct 1700000000002 product1]
     seeded = [12, 13] \<and>
   distinct (filter (\<lambda>i. i < counter_limit) (minted_ids ProductKind
     [CreateProduct 1700000000001 product1, DeleteProduct 12, CreateProduct 1700000000002 product1]
     seeded))"
proof -
  let ?cs = "[CreateProduct 1700000000001 product1, DeleteProduct 12,
    CreateProduct 1700000000002 product1]"
  have r: "reachable seeded" unfolding seeded_def by (rule reachable.constructed)
  have keys: "map fst (stored_ids ProductKind seeded) = [1, 2, 3, 4, 5, 6, 7, 8, 9, 10, 11]"
    using new_MemStorage_product_keys [of "\<lambda>k. 1700000000000"]
    by (simp add: seeded_def comp_def case_prod_unfold)
  have ids: "map snd (stored_ids ProductKind seeded) = [1, 2, 3, 4, 5, 6, 7, 8, 9, 10, 11]"
    using new_MemStorage_product_ids [of "\<lambda>k. 1700000000000"]
    by (simp add: seeded_def comp_def case_prod_unfold)
  have minted: "minted_ids ProductKind ?cs seeded = [12, 13]"
    by (simp add: seeded_def new_MemStorage_counters mem_createProduct_def
        mem_deleteProduct_def Let_def js_increment_numeral)
  have counter: "counter ProductKind seeded = 12"
    by (simp add: seeded_def new_MemStorage_counters)
  have typed: "well_typed (DeleteProduct 12)" by simp
  from ids_below_counter_and_never_reused [OF r, of ProductKind ?cs]
  have apart: "distinct (filter (\<lambda>i. i < counter_limit) (minted_ids ProductKind ?cs seeded))"
    by (rule conjunct2 [THEN conjunct2, THEN conjunct1])
  show ?thesis
    by (intro conjI) (fact r counter keys ids typed minted apart)+
qed

text \<open>
  The claim as stated does not hold.  The route of \<^verbatim>\<open>PATCH /api/products/:id\<close> hands
  the body of the request to \<^verbatim>\<open>updateProduct\<close> as it is, and the spread copies an
  \<^verbatim>\<open>id\<close> of the payload over the stored one: after \<^verbatim>\<open>updateProduct(1, {id: 99})\<close>
  on the constructed state the product under the key 1 carries the id 99, which is
  not below the counter 12.  And the counter stops at \<^verbatim>\<open>2^53\<close>: in the state where the
  counter of the products has arrived there, a creation stores a product whose id is
  the counter, and the creation after its deletion mints the same id again.
\<close>

theorem ids_mutated_and_reused_counterexample:
  "(1, 1) \<in> set (stored_ids ProductKind seeded) \<and>
   (1, 99) \<in> set (stored_ids ProductKind (exec (UpdateProduct 1 (only_id 99)) seeded)) \<and>
   counter ProductKind (exec (UpdateProduct 1 (only_id 99)) seeded) = 12 \<and>
   reachable worn_out \<and>
   counter ProductKind worn_out = 9007199254740992 \<and>
   counter ProductKind (exec (CreateProduct 1700000000002 product1) worn_out) =
     9007199254740992 \<and>
   (9007199254740992, 9007199254740992) \<in>
     set (stored_ids ProductKind (exec (CreateProduct 1700000000002 product1) worn_out)) \<and>
   minted_ids ProductKind
     [CreateProduct 1700000000002 product1, DeleteProduct 9007199254740992,
      CreateProduct 1700000000003 product1]
     worn_out = [9007199254740992, 9007199254740992]"
proof -
  from seeded_product_1 obtain e where e: "map_get (products seeded) 1 = Some e"
    and id: "product_id e = 1" by blast
  from stored_product [OF e] id have before: "(1, 1) \<in> set (stored_ids ProductKind seeded)"
    by simp
  from stored_product [OF updateProduct_only_id(1) [OF e, of 99]] updateProduct_only_id(2) [OF e, of 99]
  have after: "(1, 99) \<in> set (stored_ids ProductKind (exec (UpdateProduct 1 (only_id 99)) seeded))"
    by simp
  have counter_after: "counter ProductKind (exec (UpdateProduct 1 (only_id 99)) seeded) = 12"
    using updateProduct_only_id(3) [OF e, of 99]
    by (simp add: seeded_def new_MemStorage_counters)
  have worn: "counter ProductKind worn_out = 9007199254740992"
    using worn_out_productId by (simp add: counter_limit_def)
  have stalled: "counter ProductKind (exec (CreateProduct 1700000000002 product1) worn_out) =
      9007199254740992"
    using worn_out_productId createProduct_stored(3) [of 1700000000002 product1 worn_out]
    by (simp add: js_increment_def counter_limit_def)
  have stored: "(9007199254740992, 9007199254740992) \<in>
      set (stored_ids ProductKind (exec (CreateProduct 1700000000002 product1) worn_out))"
    using stored_product [OF createProduct_stored(1) [of 1700000000002 product1 worn_out]]
      createProduct_stored(2) [of 1700000000002 product1 worn_out] worn_out_productId
    by (simp add: counter_limit_def)
  have again: "minted_ids ProductKind
      [CreateProduct 1700000000002 product1, DeleteProduct 9007199254740992,
       CreateProduct 1700000000003 product1]
      worn_out = [9007199254740992, 9007199254740992]"
    using worn_out_productId
    by (simp add: mem_createProduct_def mem_deleteProduct_def Let_def js_increment_def
        counter_limit_def)
  show ?thesis
    by (intro conjI)
      (fact before after counter_after worn_out_reachable worn stalled stored again)+
qed

section \<open>Creating and fetching\<close>

















section \<open>Lookups by a unique field\<close>









end
